theory Spec2Isabelle
  imports Main "HOL-Library.AList"
begin

section \<open>Kubernetes objects\<close>

text \<open>
  The reconciler of \<^verbatim>\<open>ClusterProfile\<close> objects talks to an API server holding typed
  objects. Every object carries the same metadata; each kind extends it with its own
  specification and status. A Go \<^verbatim>\<open>map[string]string\<close> is an association list read with
  \<^const>\<open>map_of\<close>. The labels are only looked up and extended, so that a nil map of labels
  is the empty list; the annotations are compared with \<^verbatim>\<open>reflect.DeepEqual\<close>, which tells a
  nil map from an empty one, so that a nil map of annotations is \<open>None\<close>.
\<close>

record OwnerReference =
  ownerAPIVersion :: string
  ownerKind :: string
  ownerName :: string
  ownerUID :: string

record ObjectMeta =
  Kind :: string
  APIVersion :: string
  Namespace :: string
  Name :: string
  UID :: string
  Labels :: "(string \<times> string) list"
  Annotations :: "(string \<times> string) list option"
  OwnerReferences :: "OwnerReference list"
  Finalizers :: "string list"
  DeletionTimestamp :: "nat option"

text \<open>\<^verbatim>\<open>corev1.ObjectReference\<close>, with the three fields the reconciler fills.\<close>

record ObjectReference =
  refKind :: string
  refNamespace :: string
  refName :: string

text \<open>\<^verbatim>\<open>metav1.Time.IsZero\<close>: a nil pointer or the zero time.\<close>

definition IsZero :: "nat option \<Rightarrow> bool" where
  "IsZero t = (case t of None \<Rightarrow> True | Some n \<Rightarrow> n = 0)"

text \<open>A workload cluster (\<^verbatim>\<open>clusterv1.Cluster\<close>): only its metadata is read.\<close>

type_synonym Cluster = ObjectMeta

text \<open>A \<^verbatim>\<open>clusterv1.Machine\<close>: metadata and \<^verbatim>\<open>Status.Phase\<close>.\<close>

record Machine = ObjectMeta +
  Phase :: string

text \<open>
  Modelled from the spec: the API types of the repository are declared outside the
  reconciler's file. Each record has the fields that the reconciler reads or writes;
  section 3 of the specification describes them, with the three sync modes.
\<close>

datatype SyncMode = SyncModeContinuous | SyncModeOneTime | SyncModeDryRun

text \<open>
  The profile's specification: the selector, the sync mode, and the feature payload
  (Helm charts, policy references) that the reconciler only copies.
\<close>

record ClusterProfileSpec =
  ClusterSelector :: string
  SyncMode :: SyncMode
  Features :: string

record ClusterProfile = ObjectMeta +
  Spec :: ClusterProfileSpec
  MatchingClusterRefs :: "ObjectReference list"

record ClusterSummarySpec =
  ClusterNamespace :: string
  ClusterName :: string
  ClusterProfileSpec :: ClusterProfileSpec

record ClusterSummary = ObjectMeta +
  SummarySpec :: ClusterSummarySpec

record ClusterReportSpec =
  ReportClusterNamespace :: string
  ReportClusterName :: string

record ClusterReport = ObjectMeta +
  ReportSpec :: ClusterReportSpec

record ClusterProfileResource =
  ClusterProfileName :: string
  Resources :: string

record ClusterConfiguration = ObjectMeta +
  ClusterProfileResources :: "ClusterProfileResource list"

section \<open>The API server\<close>

text \<open>
  Errors of the client, and errors of the reconciler: an API error, or the run-time panic
  of a method call on a nil interface value.
\<close>

datatype api_error = NotFound | AlreadyExists | Conflict | ServerError

datatype error = Api api_error | NilDereference

text \<open>
  The state of the API server as the reconciler sees it. Every client call first consumes
  one entry of \<open>faults\<close>: \<open>Some e\<close> makes the call fail with \<open>e\<close> and leave the objects
  alone, \<open>None\<close> (or an exhausted script) lets it through.
\<close>

record world =
  clusters :: "Cluster list"
  machines :: "Machine list"
  clusterConfigurations :: "ClusterConfiguration list"
  clusterReports :: "ClusterReport list"
  clusterSummaries :: "ClusterSummary list"
  faults :: "api_error option list"

definition next_fault :: "world \<Rightarrow> api_error option \<times> world" where
  "next_fault w = (case faults w of [] \<Rightarrow> (None, w) | f # fs \<Rightarrow> (f, w\<lparr>faults := fs\<rparr>))"

text \<open>Objects of one kind are identified by namespace and name.\<close>

definition objKey :: "'a ObjectMeta_scheme \<Rightarrow> string \<times> string" where
  "objKey obj = (Namespace obj, Name obj)"

text \<open>
  The server keeps an object as it is serialised: an empty map of annotations is left out,
  and read back as the nil map.
\<close>

definition serialised :: "'a ObjectMeta_scheme \<Rightarrow> 'a ObjectMeta_scheme" where
  "serialised obj = (if Annotations obj = Some [] then obj\<lparr>Annotations := None\<rparr> else obj)"

definition store_get ::
  "'a ObjectMeta_scheme list \<Rightarrow> string \<times> string \<Rightarrow> api_error + 'a ObjectMeta_scheme" where
  "store_get objs k =
     (case find (\<lambda>x. objKey x = k) objs of None \<Rightarrow> Inl NotFound | Some x \<Rightarrow> Inr x)"

definition store_create ::
  "'a ObjectMeta_scheme list \<Rightarrow> 'a ObjectMeta_scheme \<Rightarrow> api_error + 'a ObjectMeta_scheme list" where
  "store_create objs obj =
     (case find (\<lambda>x. objKey x = objKey obj) objs of
        Some x \<Rightarrow> Inl AlreadyExists
      | None \<Rightarrow> Inr (objs @ [serialised obj]))"

text \<open>
  Deleting an object that holds finalizers only stamps it as terminating; without
  finalizers it is removed.
\<close>

definition store_delete ::
  "'a ObjectMeta_scheme list \<Rightarrow> string \<times> string \<Rightarrow> api_error + 'a ObjectMeta_scheme list" where
  "store_delete objs k =
     (case find (\<lambda>x. objKey x = k) objs of
        None \<Rightarrow> Inl NotFound
      | Some x \<Rightarrow>
          if Finalizers x = [] then Inr (filter (\<lambda>y. objKey y \<noteq> k) objs)
          else Inr (map (\<lambda>y. if objKey y = k \<and> IsZero (DeletionTimestamp y)
                               then y\<lparr>DeletionTimestamp := Some 1\<rparr> else y) objs))"

definition store_update ::
  "'a ObjectMeta_scheme list \<Rightarrow> 'a ObjectMeta_scheme \<Rightarrow> api_error + 'a ObjectMeta_scheme list" where
  "store_update objs obj =
     (case find (\<lambda>x. objKey x = objKey obj) objs of
        None \<Rightarrow> Inl NotFound
      | Some x \<Rightarrow> Inr (map (\<lambda>y. if objKey y = objKey obj then serialised obj else y) objs))"

text \<open>\<^verbatim>\<open>client.MatchingLabels\<close> and \<^verbatim>\<open>client.InNamespace\<close>.\<close>

definition MatchingLabels :: "(string \<times> string) list \<Rightarrow> 'a ObjectMeta_scheme \<Rightarrow> bool" where
  "MatchingLabels ls obj = list_all (\<lambda>(k, v). map_of (Labels obj) k = Some v) ls"

definition InNamespace :: "string \<Rightarrow> 'a ObjectMeta_scheme \<Rightarrow> bool" where
  "InNamespace ns obj = (Namespace obj = ns)"

definition List_Cluster :: "world \<Rightarrow> (error + Cluster list) \<times> world" where
  "List_Cluster w =
     (case next_fault w of
        (Some e, w1) \<Rightarrow> (Inl (Api e), w1)
      | (None, w1) \<Rightarrow> (Inr (clusters w1), w1))"

section \<open>The matcher\<close>

text \<open>
  \<^verbatim>\<open>labels.Parse\<close> belongs to the Kubernetes library and is a parameter \<open>Parse\<close> of the
  model: \<open>Some m\<close> is the parsed selector with its \<^verbatim>\<open>Matches\<close> predicate \<open>m\<close>, \<open>None\<close> is
  the nil \<^verbatim>\<open>Selector\<close> that the library returns together with a parse error.
\<close>

type_synonym Selector = "(string \<rightharpoonup> string) \<Rightarrow> bool"

text \<open>
  Modelled from the spec: \<^verbatim>\<open>GetSelector\<close> of the scope gives the selector string of the
  profile, the input of the matcher (section 4.2).
\<close>

definition GetSelector :: "ClusterProfile \<Rightarrow> string" where
  "GetSelector clusterProfileScope = ClusterSelector (Spec clusterProfileScope)"

text \<open>
  The loop of \<^verbatim>\<open>getMatchingClusters\<close>. The error of \<^verbatim>\<open>labels.Parse\<close> is dropped, so the
  call \<^verbatim>\<open>parsedSelector.Matches\<close> on a nil selector panics.
\<close>

fun getMatchingClusters_loop ::
  "Selector option \<Rightarrow> Cluster list \<Rightarrow> ObjectReference list \<Rightarrow> error + ObjectReference list" where
  "getMatchingClusters_loop parsedSelector [] matching = Inr matching"
| "getMatchingClusters_loop parsedSelector (cluster # rest) matching =
     (if \<not> IsZero (DeletionTimestamp cluster)
      then getMatchingClusters_loop parsedSelector rest matching
      else case parsedSelector of
             None \<Rightarrow> Inl NilDereference
           | Some m \<Rightarrow>
               if m (map_of (Labels cluster))
               then getMatchingClusters_loop parsedSelector rest
                      (matching @ [\<lparr>refKind = Kind cluster, refNamespace = Namespace cluster,
                                    refName = Name cluster\<rparr>])
               else getMatchingClusters_loop parsedSelector rest matching)"

definition getMatchingClusters ::
  "(string \<Rightarrow> Selector option) \<Rightarrow> world \<Rightarrow> ClusterProfile \<Rightarrow> (error + ObjectReference list) \<times> world" where
  "getMatchingClusters Parse w clusterProfileScope =
     (case List_Cluster w of
        (Inl err, w1) \<Rightarrow> (Inl err, w1)
      | (Inr clusterList, w1) \<Rightarrow>
          (getMatchingClusters_loop (Parse (GetSelector clusterProfileScope)) clusterList [], w1))"

section \<open>Client calls\<close>

text \<open>
  A read or a write through the client: the scripted fault first, then the operation on
  the stored objects.
\<close>

definition api_read :: "world \<Rightarrow> (world \<Rightarrow> api_error + 'a) \<Rightarrow> (error + 'a) \<times> world" where
  "api_read w f =
     (case next_fault w of
        (Some e, w1) \<Rightarrow> (Inl (Api e), w1)
      | (None, w1) \<Rightarrow> (case f w1 of Inl e \<Rightarrow> (Inl (Api e), w1) | Inr x \<Rightarrow> (Inr x, w1)))"

definition api_write :: "world \<Rightarrow> (world \<Rightarrow> api_error + world) \<Rightarrow> (error + unit) \<times> world" where
  "api_write w f =
     (case next_fault w of
        (Some e, w1) \<Rightarrow> (Inl (Api e), w1)
      | (None, w1) \<Rightarrow> (case f w1 of Inl e \<Rightarrow> (Inl (Api e), w1) | Inr w2 \<Rightarrow> (Inr (), w2)))"

definition List_Machine ::
  "world \<Rightarrow> string \<Rightarrow> (string \<times> string) list \<Rightarrow> (error + Machine list) \<times> world" where
  "List_Machine w ns ls =
     api_read w (\<lambda>w1. Inr (filter (\<lambda>m. InNamespace ns m \<and> MatchingLabels ls m) (machines w1)))"

definition List_ClusterSummary ::
  "world \<Rightarrow> (string \<times> string) list \<Rightarrow> (error + ClusterSummary list) \<times> world" where
  "List_ClusterSummary w ls =
     api_read w (\<lambda>w1. Inr (filter (MatchingLabels ls) (clusterSummaries w1)))"

definition Get_ClusterSummary ::
  "world \<Rightarrow> string \<times> string \<Rightarrow> (error + ClusterSummary) \<times> world" where
  "Get_ClusterSummary w k = api_read w (\<lambda>w1. store_get (clusterSummaries w1) k)"

definition Create_ClusterSummary :: "world \<Rightarrow> ClusterSummary \<Rightarrow> (error + unit) \<times> world" where
  "Create_ClusterSummary w obj =
     api_write w (\<lambda>w1. case store_create (clusterSummaries w1) obj of
                          Inl e \<Rightarrow> Inl e
                        | Inr objs \<Rightarrow> Inr (w1\<lparr>clusterSummaries := objs\<rparr>))"

definition Delete_ClusterSummary :: "world \<Rightarrow> ClusterSummary \<Rightarrow> (error + unit) \<times> world" where
  "Delete_ClusterSummary w obj =
     api_write w (\<lambda>w1. case store_delete (clusterSummaries w1) (objKey obj) of
                          Inl e \<Rightarrow> Inl e
                        | Inr objs \<Rightarrow> Inr (w1\<lparr>clusterSummaries := objs\<rparr>))"

definition Update_ClusterSummary :: "world \<Rightarrow> ClusterSummary \<Rightarrow> (error + unit) \<times> world" where
  "Update_ClusterSummary w obj =
     api_write w (\<lambda>w1. case store_update (clusterSummaries w1) obj of
                          Inl e \<Rightarrow> Inl e
                        | Inr objs \<Rightarrow> Inr (w1\<lparr>clusterSummaries := objs\<rparr>))"

definition List_ClusterReport ::
  "world \<Rightarrow> (string \<times> string) list \<Rightarrow> (error + ClusterReport list) \<times> world" where
  "List_ClusterReport w ls =
     api_read w (\<lambda>w1. Inr (filter (MatchingLabels ls) (clusterReports w1)))"

definition Create_ClusterReport :: "world \<Rightarrow> ClusterReport \<Rightarrow> (error + unit) \<times> world" where
  "Create_ClusterReport w obj =
     api_write w (\<lambda>w1. case store_create (clusterReports w1) obj of
                          Inl e \<Rightarrow> Inl e
                        | Inr objs \<Rightarrow> Inr (w1\<lparr>clusterReports := objs\<rparr>))"

definition Delete_ClusterReport :: "world \<Rightarrow> ClusterReport \<Rightarrow> (error + unit) \<times> world" where
  "Delete_ClusterReport w obj =
     api_write w (\<lambda>w1. case store_delete (clusterReports w1) (objKey obj) of
                          Inl e \<Rightarrow> Inl e
                        | Inr objs \<Rightarrow> Inr (w1\<lparr>clusterReports := objs\<rparr>))"

definition List_ClusterConfiguration :: "world \<Rightarrow> (error + ClusterConfiguration list) \<times> world" where
  "List_ClusterConfiguration w = api_read w (\<lambda>w1. Inr (clusterConfigurations w1))"

definition Get_ClusterConfiguration ::
  "world \<Rightarrow> string \<times> string \<Rightarrow> (error + ClusterConfiguration) \<times> world" where
  "Get_ClusterConfiguration w k = api_read w (\<lambda>w1. store_get (clusterConfigurations w1) k)"

definition Create_ClusterConfiguration ::
  "world \<Rightarrow> ClusterConfiguration \<Rightarrow> (error + unit) \<times> world" where
  "Create_ClusterConfiguration w obj =
     api_write w (\<lambda>w1. case store_create (clusterConfigurations w1) obj of
                          Inl e \<Rightarrow> Inl e
                        | Inr objs \<Rightarrow> Inr (w1\<lparr>clusterConfigurations := objs\<rparr>))"

definition Delete_ClusterConfiguration ::
  "world \<Rightarrow> ClusterConfiguration \<Rightarrow> (error + unit) \<times> world" where
  "Delete_ClusterConfiguration w obj =
     api_write w (\<lambda>w1. case store_delete (clusterConfigurations w1) (objKey obj) of
                          Inl e \<Rightarrow> Inl e
                        | Inr objs \<Rightarrow> Inr (w1\<lparr>clusterConfigurations := objs\<rparr>))"

text \<open>
  The status of a \<^verbatim>\<open>ClusterConfiguration\<close> is a subresource: \<^verbatim>\<open>Update\<close> writes the object
  and keeps the stored status, \<^verbatim>\<open>Status().Update\<close> writes the status alone.
\<close>

definition Update_ClusterConfiguration ::
  "world \<Rightarrow> ClusterConfiguration \<Rightarrow> (error + unit) \<times> world" where
  "Update_ClusterConfiguration w obj =
     api_write w (\<lambda>w1.
       case store_get (clusterConfigurations w1) (objKey obj) of
         Inl e \<Rightarrow> Inl e
       | Inr stored \<Rightarrow>
           (case store_update (clusterConfigurations w1)
                   (obj\<lparr>ClusterProfileResources := ClusterProfileResources stored\<rparr>) of
              Inl e \<Rightarrow> Inl e
            | Inr objs \<Rightarrow> Inr (w1\<lparr>clusterConfigurations := objs\<rparr>)))"

definition StatusUpdate_ClusterConfiguration ::
  "world \<Rightarrow> ClusterConfiguration \<Rightarrow> (error + unit) \<times> world" where
  "StatusUpdate_ClusterConfiguration w obj =
     api_write w (\<lambda>w1.
       case store_get (clusterConfigurations w1) (objKey obj) of
         Inl e \<Rightarrow> Inl e
       | Inr stored \<Rightarrow>
           (case store_update (clusterConfigurations w1)
                   (stored\<lparr>ClusterProfileResources := ClusterProfileResources obj\<rparr>) of
              Inl e \<Rightarrow> Inl e
            | Inr objs \<Rightarrow> Inr (w1\<lparr>clusterConfigurations := objs\<rparr>)))"

section \<open>Library functions the reconciler calls\<close>

text \<open>\<^verbatim>\<open>schema.ParseGroupVersion\<close>: the group and the version of an \<^verbatim>\<open>apiVersion\<close> string.\<close>

definition ParseGroupVersion :: "string \<Rightarrow> (string \<times> string) option" where
  "ParseGroupVersion gv =
     (if gv = [] \<or> gv = ''/'' then Some ([], [])
      else if count_list gv (CHR ''/'') = 0 then Some ([], gv)
      else if count_list gv (CHR ''/'') = 1
      then Some (takeWhile (\<lambda>c. c \<noteq> CHR ''/'') gv, tl (dropWhile (\<lambda>c. c \<noteq> CHR ''/'') gv))
      else None)"

text \<open>
  \<^verbatim>\<open>GetObjectKind().GroupVersionKind()\<close> of a typed object: the group of its \<^verbatim>\<open>APIVersion\<close>,
  empty when that does not parse.
\<close>

definition objGroup :: "'a ObjectMeta_scheme \<Rightarrow> string" where
  "objGroup obj = (case ParseGroupVersion (APIVersion obj) of None \<Rightarrow> [] | Some (g, v) \<Rightarrow> g)"

text \<open>The owner-reference helpers of \<^verbatim>\<open>sigs.k8s.io/cluster-api/util\<close>.\<close>

definition refersTo :: "OwnerReference \<Rightarrow> 'a ObjectMeta_scheme \<Rightarrow> bool" where
  "refersTo ref obj =
     (case ParseGroupVersion (ownerAPIVersion ref) of
        None \<Rightarrow> False
      | Some (g, v) \<Rightarrow> g = objGroup obj \<and> ownerKind ref = Kind obj \<and> ownerName ref = Name obj)"

definition IsOwnedByObject :: "'a ObjectMeta_scheme \<Rightarrow> 'b ObjectMeta_scheme \<Rightarrow> bool" where
  "IsOwnedByObject obj target = list_ex (\<lambda>ref. refersTo ref target) (OwnerReferences obj)"

definition referSameObject :: "OwnerReference \<Rightarrow> OwnerReference \<Rightarrow> bool" where
  "referSameObject a b =
     (case ParseGroupVersion (ownerAPIVersion a) of
        None \<Rightarrow> False
      | Some (aG, aV) \<Rightarrow>
          (case ParseGroupVersion (ownerAPIVersion b) of
             None \<Rightarrow> False
           | Some (bG, bV) \<Rightarrow> aG = bG \<and> ownerKind a = ownerKind b \<and> ownerName a = ownerName b))"

fun indexOwnerRef :: "OwnerReference list \<Rightarrow> OwnerReference \<Rightarrow> nat option" where
  "indexOwnerRef [] ref = None"
| "indexOwnerRef (r # rs) ref =
     (if referSameObject r ref then Some 0 else map_option Suc (indexOwnerRef rs ref))"

definition RemoveOwnerRef :: "OwnerReference list \<Rightarrow> OwnerReference \<Rightarrow> OwnerReference list" where
  "RemoveOwnerRef ownerReferences inputRef =
     (case indexOwnerRef ownerReferences inputRef of
        Some index \<Rightarrow> take index ownerReferences @ drop (Suc index) ownerReferences
      | None \<Rightarrow> ownerReferences)"

definition EnsureOwnerRef :: "OwnerReference list \<Rightarrow> OwnerReference \<Rightarrow> OwnerReference list" where
  "EnsureOwnerRef ownerReferences ref =
     (case indexOwnerRef ownerReferences ref of
        None \<Rightarrow> ownerReferences @ [ref]
      | Some idx \<Rightarrow> ownerReferences[idx := ref])"

text \<open>The finalizer helpers of \<^verbatim>\<open>controllerutil\<close>.\<close>

definition ContainsFinalizer :: "'a ObjectMeta_scheme \<Rightarrow> string \<Rightarrow> bool" where
  "ContainsFinalizer obj finalizer = (finalizer \<in> set (Finalizers obj))"

definition AddFinalizer :: "'a ObjectMeta_scheme \<Rightarrow> string \<Rightarrow> 'a ObjectMeta_scheme" where
  "AddFinalizer obj finalizer =
     (if finalizer \<in> set (Finalizers obj) then obj
      else obj\<lparr>Finalizers := Finalizers obj @ [finalizer]\<rparr>)"

definition RemoveFinalizer :: "'a ObjectMeta_scheme \<Rightarrow> string \<Rightarrow> 'a ObjectMeta_scheme" where
  "RemoveFinalizer obj finalizer =
     obj\<lparr>Finalizers := filter (\<lambda>f. f \<noteq> finalizer) (Finalizers obj)\<rparr>"

text \<open>
  \<^verbatim>\<open>retry.RetryOnConflict\<close>: the function is tried while it fails with a conflict, at most
  \<open>Steps\<close> times (five for \<^verbatim>\<open>retry.DefaultRetry\<close>); the sleeps between the tries are not
  modelled. Any other error ends the loop; when the steps run out the last conflict is
  returned.
\<close>

fun OnError ::
  "nat \<Rightarrow> (world \<Rightarrow> (error + unit) \<times> world) \<Rightarrow> error option \<Rightarrow> world \<Rightarrow> (error + unit) \<times> world" where
  "OnError 0 fn lastErr w = (case lastErr of None \<Rightarrow> (Inr (), w) | Some e \<Rightarrow> (Inl e, w))"
| "OnError (Suc steps) fn lastErr w =
     (case fn w of
        (Inr u, w1) \<Rightarrow> (Inr (), w1)
      | (Inl err, w1) \<Rightarrow>
          if err = Api Conflict then OnError steps fn (Some err) w1 else (Inl err, w1))"

definition DefaultRetry :: nat where
  "DefaultRetry = 5"

definition RetryOnConflict ::
  "nat \<Rightarrow> (world \<Rightarrow> (error + unit) \<times> world) \<Rightarrow> world \<Rightarrow> (error + unit) \<times> world" where
  "RetryOnConflict backoff fn w = OnError backoff fn None w"

text \<open>
  \<^verbatim>\<open>reflect.DeepEqual\<close> on two string maps: both nil, or both non-nil with the same value, or
  none, under every key.
\<close>

definition DeepEqual_map ::
  "(string \<times> string) list option \<Rightarrow> (string \<times> string) list option \<Rightarrow> bool" where
  "DeepEqual_map a b =
     (case a of
        None \<Rightarrow> b = None
      | Some x \<Rightarrow>
          (case b of
             None \<Rightarrow> False
           | Some y \<Rightarrow> list_all (\<lambda>k. map_of x k = map_of y k) (map fst x @ map fst y)))"

text \<open>Of \<^verbatim>\<open>clusterv1\<close>: two label names, and the phase of a machine that runs.\<close>

definition clusterv1_ClusterLabelName :: string where
  "clusterv1_ClusterLabelName = ''cluster.x-k8s.io/cluster-name''"

definition MachineControlPlaneLabelName :: string where
  "MachineControlPlaneLabelName = ''cluster.x-k8s.io/control-plane''"

definition IsControlPlaneMachine :: "Machine \<Rightarrow> bool" where
  "IsControlPlaneMachine machine = (map_of (Labels machine) MachineControlPlaneLabelName \<noteq> None)"

definition MachinePhaseRunning :: string where
  "MachinePhaseRunning = ''Running''"

definition GetTypedPhase :: "Machine \<Rightarrow> string" where
  "GetTypedPhase machine =
     (if Phase machine \<in> set [''Pending'', ''Provisioning'', ''Provisioned'', ''Running'',
                               ''Deleting'', ''Deleted'', ''Failed'']
      then Phase machine else ''Unknown'')"

section \<open>Parts of the repository outside the reconciler's file\<close>

text \<open>
  Modelled from the spec: the names of the labels and of the finalizer are constants
  declared elsewhere in the repository. The specification names them (section 6) and
  shows the profile label as \<^verbatim>\<open>clusterprofile=p2\<close>; the model only needs the three label
  names to differ.
\<close>

definition ClusterProfileLabelName :: string where
  "ClusterProfileLabelName = ''clusterprofile''"

definition ClusterLabelNamespace :: string where
  "ClusterLabelNamespace = ''cluster-namespace''"

definition ClusterLabelName :: string where
  "ClusterLabelName = ''cluster-name''"

definition ClusterProfileFinalizer :: string where
  "ClusterProfileFinalizer = ''ClusterProfileFinalizer''"

definition ClusterProfileKind :: string where
  "ClusterProfileKind = ''ClusterProfile''"

text \<open>
  \<^verbatim>\<open>reconcile.Result\<close>. Modelled from the spec: the tuneable \<^verbatim>\<open>deleteRequeueAfter\<close> is a
  duration declared elsewhere; it stays symbolic.
\<close>

datatype duration = NoDelay | deleteRequeueAfter

record Result =
  Requeue :: bool
  RequeueAfter :: duration

text \<open>
  Modelled from the spec: the scope wraps the profile being reconciled (section 1 lists
  the scope helpers as collaborators). Its name is the profile's name, the match set is
  written to the profile's status, and \<^verbatim>\<open>PatchObject\<close> persists the profile through the
  client; the stored profile itself is outside the model, so only the outcome of the call
  is kept.
\<close>

definition SetMatchingClusterRefs :: "ClusterProfile \<Rightarrow> ObjectReference list \<Rightarrow> ClusterProfile" where
  "SetMatchingClusterRefs clusterProfileScope matchingClusters =
     clusterProfileScope\<lparr>MatchingClusterRefs := matchingClusters\<rparr>"

definition IsOneTimeSync :: "ClusterProfile \<Rightarrow> bool" where
  "IsOneTimeSync clusterProfileScope = (SyncMode (Spec clusterProfileScope) = SyncModeOneTime)"

definition PatchObject :: "world \<Rightarrow> ClusterProfile \<Rightarrow> (error + unit) \<times> world" where
  "PatchObject w clusterProfileScope = api_write w (\<lambda>w1. Inr w1)"

text \<open>
  Modelled from the spec: the name of a derived object is a deterministic function of the
  profile's name and the cluster's name; scenario 1 of section 8 shows \<^verbatim>\<open>p1--c1\<close>.
\<close>

definition GetClusterSummaryName :: "string \<Rightarrow> string \<Rightarrow> string" where
  "GetClusterSummaryName clusterProfileName clusterName = clusterProfileName @ ''--'' @ clusterName"

definition getClusterReportName :: "string \<Rightarrow> string \<Rightarrow> string" where
  "getClusterReportName clusterProfileName clusterName = clusterProfileName @ ''--'' @ clusterName"

text \<open>
  Modelled from the spec: \<^verbatim>\<open>addLabel\<close> sets one label of an object; a summary is labelled
  with its profile, cluster namespace and cluster name (section 3).
\<close>

definition addLabel :: "'a ObjectMeta_scheme \<Rightarrow> string \<Rightarrow> string \<Rightarrow> 'a ObjectMeta_scheme" where
  "addLabel obj labelKey labelValue = obj\<lparr>Labels := AList.update labelKey labelValue (Labels obj)\<rparr>"

text \<open>
  Modelled from the spec: a \<^verbatim>\<open>ClusterConfiguration\<close> has the namespace and name of its
  cluster; a \<^verbatim>\<open>ClusterSummary\<close> lives in the cluster's namespace under the deterministic
  name (section 3). The two getters read by that identity.
\<close>

definition getClusterConfiguration ::
  "world \<Rightarrow> string \<Rightarrow> string \<Rightarrow> (error + ClusterConfiguration) \<times> world" where
  "getClusterConfiguration w clusterNamespace clusterName =
     Get_ClusterConfiguration w (clusterNamespace, clusterName)"

definition getClusterSummary ::
  "world \<Rightarrow> string \<Rightarrow> string \<Rightarrow> string \<Rightarrow> (error + ClusterSummary) \<times> world" where
  "getClusterSummary w clusterProfileName clusterNamespace clusterName =
     Get_ClusterSummary w (clusterNamespace, GetClusterSummaryName clusterProfileName clusterName)"

text \<open>
  \<^verbatim>\<open>configv1alpha1.PolicyRef\<close>, the key and the element type of the in-memory indices, with
  the three fields that \<^verbatim>\<open>updatesMaps\<close> fills.
\<close>

record PolicyRef =
  policyNamespace :: string
  policyName :: string
  policyKind :: string

text \<open>
  Modelled from the spec: the \<^verbatim>\<open>Set\<close> type of the repository is a set of references
  (section 4.3 computes \<^verbatim>\<open>previous[profile] \ currentMatches\<close> with it). It is kept as a
  list without duplicates; \<^verbatim>\<open>difference\<close> returns the elements of the first set that the
  second does not have.
\<close>

type_synonym Set = "PolicyRef list"

definition insert_Set :: "Set \<Rightarrow> PolicyRef \<Rightarrow> Set" where
  "insert_Set s entry = (if entry \<in> set s then s else s @ [entry])"

definition erase :: "Set \<Rightarrow> PolicyRef \<Rightarrow> Set" where
  "erase s entry = filter (\<lambda>x. x \<noteq> entry) s"

definition has :: "Set \<Rightarrow> PolicyRef \<Rightarrow> bool" where
  "has s entry = (entry \<in> set s)"

definition difference :: "Set \<Rightarrow> Set \<Rightarrow> PolicyRef list" where
  "difference s s2 = filter (\<lambda>item. \<not> has s2 item) s"


section \<open>The reconciler\<close>

text \<open>
  Every function takes the world first and returns its result with the world it leaves.
  A scope is the profile it wraps. Wrapping an error keeps the error; logging is dropped.
\<close>

subsection \<open>Finalizer\<close>

definition addFinalizer :: "world \<Rightarrow> ClusterProfile \<Rightarrow> (error + unit) \<times> world \<times> ClusterProfile" where
  "addFinalizer w clusterProfileScope =
     (let scope1 = AddFinalizer clusterProfileScope ClusterProfileFinalizer in
      case PatchObject w scope1 of
        (Inl err, w1) \<Rightarrow> (Inl err, w1, scope1)
      | (Inr u, w1) \<Rightarrow> (Inr (), w1, scope1))"

subsection \<open>Reports\<close>

definition createClusterReport ::
  "world \<Rightarrow> ClusterProfile \<Rightarrow> ObjectReference \<Rightarrow> (error + unit) \<times> world" where
  "createClusterReport w clusterProfile cluster =
     (let clusterReport =
            \<lparr>Kind = [], APIVersion = [],
             Namespace = refNamespace cluster,
             Name = getClusterReportName (Name clusterProfile) (refName cluster),
             UID = [],
             Labels = [(ClusterProfileLabelName, Name clusterProfile)],
             Annotations = None, OwnerReferences = [], Finalizers = [],
             DeletionTimestamp = None,
             ReportSpec = \<lparr>ReportClusterNamespace = refNamespace cluster,
                           ReportClusterName = refName cluster\<rparr>\<rparr>
      in case Create_ClusterReport w clusterReport of
           (Inl err, w1) \<Rightarrow> if err = Api AlreadyExists then (Inr (), w1) else (Inl err, w1)
         | (Inr u, w1) \<Rightarrow> (Inr (), w1))"

fun createClusterReports_loop ::
  "ClusterProfile \<Rightarrow> ObjectReference list \<Rightarrow> world \<Rightarrow> (error + unit) \<times> world" where
  "createClusterReports_loop clusterProfile [] w = (Inr (), w)"
| "createClusterReports_loop clusterProfile (cluster # rest) w =
     (case createClusterReport w clusterProfile cluster of
        (Inl err, w1) \<Rightarrow> (Inl err, w1)
      | (Inr u, w1) \<Rightarrow> createClusterReports_loop clusterProfile rest w1)"

definition createClusterReports :: "world \<Rightarrow> ClusterProfile \<Rightarrow> (error + unit) \<times> world" where
  "createClusterReports w clusterProfile =
     createClusterReports_loop clusterProfile (MatchingClusterRefs clusterProfile) w"

fun cleanClusterReports_loop :: "ClusterReport list \<Rightarrow> world \<Rightarrow> (error + unit) \<times> world" where
  "cleanClusterReports_loop [] w = (Inr (), w)"
| "cleanClusterReports_loop (item # rest) w =
     (case Delete_ClusterReport w item of
        (Inl err, w1) \<Rightarrow>
          if err \<noteq> Api NotFound then (Inl err, w1) else cleanClusterReports_loop rest w1
      | (Inr u, w1) \<Rightarrow> cleanClusterReports_loop rest w1)"

definition cleanClusterReports :: "world \<Rightarrow> ClusterProfile \<Rightarrow> (error + unit) \<times> world" where
  "cleanClusterReports w clusterProfile =
     (case List_ClusterReport w [(ClusterProfileLabelName, Name clusterProfile)] of
        (Inl err, w1) \<Rightarrow> (Inl err, w1)
      | (Inr items, w1) \<Rightarrow> cleanClusterReports_loop items w1)"

definition updateClusterReports :: "world \<Rightarrow> ClusterProfile \<Rightarrow> (error + unit) \<times> world" where
  "updateClusterReports w clusterProfileScope =
     (if SyncMode (Spec clusterProfileScope) = SyncModeDryRun
      then (case createClusterReports w clusterProfileScope of
              (Inl err, w1) \<Rightarrow> (Inl err, w1)
            | (Inr u, w1) \<Rightarrow> (Inr (), w1))
      else (case cleanClusterReports w clusterProfileScope of
              (Inl err, w1) \<Rightarrow> (Inl err, w1)
            | (Inr u, w1) \<Rightarrow> (Inr (), w1)))"

subsection \<open>Summaries\<close>

definition getMachinesForCluster ::
  "world \<Rightarrow> ClusterProfile \<Rightarrow> ObjectReference \<Rightarrow> (error + Machine list) \<times> world" where
  "getMachinesForCluster w clusterProfileScope cluster =
     (case List_Machine w (refNamespace cluster) [(clusterv1_ClusterLabelName, refName cluster)] of
        (Inl err, w1) \<Rightarrow> (Inl err, w1)
      | (Inr machineList, w1) \<Rightarrow> (Inr machineList, w1))"

definition isClusterReadyToBeConfigured ::
  "world \<Rightarrow> ClusterProfile \<Rightarrow> ObjectReference \<Rightarrow> (error + bool) \<times> world" where
  "isClusterReadyToBeConfigured w clusterProfileScope cluster =
     (case getMachinesForCluster w clusterProfileScope cluster of
        (Inl err, w1) \<Rightarrow> (Inl err, w1)
      | (Inr machineList, w1) \<Rightarrow>
          (Inr (list_ex (\<lambda>machine. IsControlPlaneMachine machine \<and>
                                    GetTypedPhase machine = MachinePhaseRunning) machineList), w1))"

definition createClusterSummary ::
  "world \<Rightarrow> ClusterProfile \<Rightarrow> ObjectReference \<Rightarrow> (error + unit) \<times> world" where
  "createClusterSummary w clusterProfileScope cluster =
     (let clusterSummaryName = GetClusterSummaryName (Name clusterProfileScope) (refName cluster);
          clusterSummary =
            \<lparr>Kind = [], APIVersion = [],
             Namespace = refNamespace cluster,
             Name = clusterSummaryName,
             UID = [],
             Labels = [],
             Annotations = Annotations clusterProfileScope,
             OwnerReferences =
               [\<lparr>ownerAPIVersion = APIVersion clusterProfileScope,
                 ownerKind = Kind clusterProfileScope,
                 ownerName = Name clusterProfileScope,
                 ownerUID = UID clusterProfileScope\<rparr>],
             Finalizers = [],
             DeletionTimestamp = None,
             SummarySpec = \<lparr>ClusterNamespace = refNamespace cluster,
                            ClusterName = refName cluster,
                            ClusterProfileSpec = Spec clusterProfileScope\<rparr>\<rparr>;
          clusterSummary1 = addLabel clusterSummary ClusterProfileLabelName (Name clusterProfileScope);
          clusterSummary2 = addLabel clusterSummary1 ClusterLabelNamespace (refNamespace cluster);
          clusterSummary3 = addLabel clusterSummary2 ClusterLabelName (refName cluster)
      in Create_ClusterSummary w clusterSummary3)"

definition updateClusterSummary ::
  "world \<Rightarrow> ClusterProfile \<Rightarrow> ObjectReference \<Rightarrow> (error + unit) \<times> world" where
  "updateClusterSummary w clusterProfileScope cluster =
     (if IsOneTimeSync clusterProfileScope then (Inr (), w)
      else
        case getClusterSummary w (Name clusterProfileScope) (refNamespace cluster) (refName cluster) of
          (Inl err, w1) \<Rightarrow> (Inl err, w1)
        | (Inr clusterSummary, w1) \<Rightarrow>
            if Spec clusterProfileScope = ClusterProfileSpec (SummarySpec clusterSummary) \<and>
               DeepEqual_map (Annotations clusterProfileScope) (Annotations clusterSummary)
            then (Inr (), w1)
            else Update_ClusterSummary w1
                   (clusterSummary\<lparr>Annotations := Annotations clusterProfileScope,
                                   SummarySpec := (SummarySpec clusterSummary)
                                     \<lparr>ClusterProfileSpec := Spec clusterProfileScope\<rparr>\<rparr>))"

text \<open>
  The loop of \<^verbatim>\<open>updateClusterSummaries\<close>. A failure of \<^verbatim>\<open>createClusterSummary\<close> is logged
  and the loop goes on.
\<close>

fun updateClusterSummaries_loop ::
  "ClusterProfile \<Rightarrow> ObjectReference list \<Rightarrow> world \<Rightarrow> (error + unit) \<times> world" where
  "updateClusterSummaries_loop clusterProfileScope [] w = (Inr (), w)"
| "updateClusterSummaries_loop clusterProfileScope (cluster # rest) w =
     (case isClusterReadyToBeConfigured w clusterProfileScope cluster of
        (Inl err, w1) \<Rightarrow> (Inl err, w1)
      | (Inr ready, w1) \<Rightarrow>
          if \<not> ready then updateClusterSummaries_loop clusterProfileScope rest w1
          else
            (case getClusterSummary w1 (Name clusterProfileScope)
                    (refNamespace cluster) (refName cluster) of
               (Inl err, w2) \<Rightarrow>
                 if err = Api NotFound
                 then (case createClusterSummary w2 clusterProfileScope cluster of
                         (r, w3) \<Rightarrow> updateClusterSummaries_loop clusterProfileScope rest w3)
                 else (Inl err, w2)
             | (Inr found, w2) \<Rightarrow>
                 (case updateClusterSummary w2 clusterProfileScope cluster of
                    (Inl err, w3) \<Rightarrow> (Inl err, w3)
                  | (Inr u, w3) \<Rightarrow> updateClusterSummaries_loop clusterProfileScope rest w3)))"

definition updateClusterSummaries :: "world \<Rightarrow> ClusterProfile \<Rightarrow> (error + unit) \<times> world" where
  "updateClusterSummaries w clusterProfileScope =
     updateClusterSummaries_loop clusterProfileScope (MatchingClusterRefs clusterProfileScope) w"

definition deleteClusterSummary :: "world \<Rightarrow> ClusterSummary \<Rightarrow> (error + unit) \<times> world" where
  "deleteClusterSummary w clusterSummary = Delete_ClusterSummary w clusterSummary"

definition updateClusterSummarySyncMode ::
  "world \<Rightarrow> ClusterProfile \<Rightarrow> ClusterSummary \<Rightarrow> (error + unit) \<times> world" where
  "updateClusterSummarySyncMode w clusterProfile clusterSummary =
     (case Get_ClusterSummary w (Namespace clusterSummary, Name clusterSummary) of
        (Inl err, w1) \<Rightarrow> (Inl err, w1)
      | (Inr currentClusterSummary, w1) \<Rightarrow>
          Update_ClusterSummary w1
            (currentClusterSummary\<lparr>SummarySpec := (SummarySpec currentClusterSummary)
               \<lparr>ClusterProfileSpec := (ClusterProfileSpec (SummarySpec currentClusterSummary))
                  \<lparr>SyncMode := SyncMode (Spec clusterProfile)\<rparr>\<rparr>\<rparr>))"

text \<open>The key closure of \<^verbatim>\<open>cleanClusterSummaries\<close>: \<^verbatim>\<open>fmt.Sprintf("%s-%s", ...)\<close>.\<close>

definition getClusterInfo :: "string \<Rightarrow> string \<Rightarrow> string" where
  "getClusterInfo clusterNamespace clusterName = clusterNamespace @ ''-'' @ clusterName"

fun cleanClusterSummaries_matching ::
  "ObjectReference list \<Rightarrow> (string \<rightharpoonup> bool) \<Rightarrow> (string \<rightharpoonup> bool)" where
  "cleanClusterSummaries_matching [] matching = matching"
| "cleanClusterSummaries_matching (reference # rest) matching =
     cleanClusterSummaries_matching rest
       (matching(getClusterInfo (refNamespace reference) (refName reference) \<mapsto> True))"

fun cleanClusterSummaries_loop ::
  "ClusterProfile \<Rightarrow> (string \<rightharpoonup> bool) \<Rightarrow> ClusterSummary list \<Rightarrow> world \<Rightarrow> (error + unit) \<times> world" where
  "cleanClusterSummaries_loop clusterProfileScope matching [] w = (Inr (), w)"
| "cleanClusterSummaries_loop clusterProfileScope matching (cs # rest) w =
     (if IsOwnedByObject cs clusterProfileScope
      then
        (case (if matching (getClusterInfo (ClusterNamespace (SummarySpec cs))
                                           (ClusterName (SummarySpec cs))) = None
               then deleteClusterSummary w cs
               else (Inr (), w)) of
           (Inl err, w1) \<Rightarrow> (Inl err, w1)
         | (Inr u, w1) \<Rightarrow>
             (case updateClusterSummarySyncMode w1 clusterProfileScope cs of
                (Inl err, w2) \<Rightarrow> (Inl err, w2)
              | (Inr u2, w2) \<Rightarrow> cleanClusterSummaries_loop clusterProfileScope matching rest w2))
      else cleanClusterSummaries_loop clusterProfileScope matching rest w)"

definition cleanClusterSummaries :: "world \<Rightarrow> ClusterProfile \<Rightarrow> (error + unit) \<times> world" where
  "cleanClusterSummaries w clusterProfileScope =
     (let matching = cleanClusterSummaries_matching (MatchingClusterRefs clusterProfileScope) Map.empty
      in case List_ClusterSummary w [(ClusterProfileLabelName, Name clusterProfileScope)] of
           (Inl err, w1) \<Rightarrow> (Inl err, w1)
         | (Inr items, w1) \<Rightarrow> cleanClusterSummaries_loop clusterProfileScope matching items w1)"


subsection \<open>Detaching configurations\<close>

definition cleanClusterConfigurationOwnerReferences ::
  "world \<Rightarrow> ClusterProfile \<Rightarrow> ClusterConfiguration \<Rightarrow> (error + unit) \<times> world" where
  "cleanClusterConfigurationOwnerReferences w clusterProfile clusterConfiguration =
     (let ownerRef = \<lparr>ownerAPIVersion = APIVersion clusterProfile,
                      ownerKind = Kind clusterProfile,
                      ownerName = Name clusterProfile,
                      ownerUID = UID clusterProfile\<rparr>
      in if \<not> IsOwnedByObject clusterConfiguration clusterProfile then (Inr (), w)
         else
           (let clusterConfiguration1 = clusterConfiguration
                  \<lparr>OwnerReferences := RemoveOwnerRef (OwnerReferences clusterConfiguration) ownerRef\<rparr>
            in if length (OwnerReferences clusterConfiguration1) = 0
               then Delete_ClusterConfiguration w clusterConfiguration1
               else Update_ClusterConfiguration w clusterConfiguration1))"

text \<open>The index of the first status block of the profile, as the loop finds it.\<close>

fun indexClusterProfileResource :: "ClusterProfileResource list \<Rightarrow> string \<Rightarrow> nat option" where
  "indexClusterProfileResource [] name = None"
| "indexClusterProfileResource (r # rs) name =
     (if ClusterProfileName r \<noteq> name then map_option Suc (indexClusterProfileResource rs name)
      else Some 0)"

text \<open>
  One try of the closure in \<^verbatim>\<open>cleanClusterConfigurationClusterProfileResources\<close>: the block
  at index \<open>i\<close> is overwritten with the last one and the slice loses its last element.
\<close>

definition cleanClusterConfigurationClusterProfileResources_try ::
  "ClusterProfile \<Rightarrow> ClusterConfiguration \<Rightarrow> world \<Rightarrow> (error + unit) \<times> world" where
  "cleanClusterConfigurationClusterProfileResources_try clusterProfile clusterConfiguration w =
     (case getClusterConfiguration w (Namespace clusterConfiguration) (Name clusterConfiguration) of
        (Inl err, w1) \<Rightarrow> if err = Api NotFound then (Inr (), w1) else (Inl err, w1)
      | (Inr currentClusterConfiguration, w1) \<Rightarrow>
          (case indexClusterProfileResource (ClusterProfileResources currentClusterConfiguration)
                  (Name clusterProfile) of
             None \<Rightarrow> (Inr (), w1)
           | Some i \<Rightarrow>
               StatusUpdate_ClusterConfiguration w1
                 (currentClusterConfiguration\<lparr>ClusterProfileResources :=
                    butlast ((ClusterProfileResources currentClusterConfiguration)
                               [i := last (ClusterProfileResources currentClusterConfiguration)])\<rparr>)))"

definition cleanClusterConfigurationClusterProfileResources ::
  "world \<Rightarrow> ClusterProfile \<Rightarrow> ClusterConfiguration \<Rightarrow> (error + unit) \<times> world" where
  "cleanClusterConfigurationClusterProfileResources w clusterProfile clusterConfiguration =
     RetryOnConflict DefaultRetry
       (cleanClusterConfigurationClusterProfileResources_try clusterProfile clusterConfiguration) w"

definition cleanClusterConfiguration ::
  "world \<Rightarrow> ClusterProfile \<Rightarrow> ClusterConfiguration \<Rightarrow> (error + unit) \<times> world" where
  "cleanClusterConfiguration w clusterProfile clusterConfiguration =
     (case cleanClusterConfigurationOwnerReferences w clusterProfile clusterConfiguration of
        (Inl err, w1) \<Rightarrow> (Inl err, w1)
      | (Inr u, w1) \<Rightarrow>
          (case cleanClusterConfigurationClusterProfileResources w1 clusterProfile clusterConfiguration of
             (Inl err, w2) \<Rightarrow> (Inl err, w2)
           | (Inr u2, w2) \<Rightarrow> (Inr (), w2)))"

text \<open>The key closure of \<^verbatim>\<open>cleanClusterConfigurations\<close>: \<^verbatim>\<open>fmt.Sprintf("%s--%s", ...)\<close>.\<close>

definition info :: "string \<Rightarrow> string \<Rightarrow> string" where
  "info namespace name = namespace @ ''--'' @ name"

fun cleanClusterConfigurations_matching ::
  "ObjectReference list \<Rightarrow> (string \<rightharpoonup> bool) \<Rightarrow> (string \<rightharpoonup> bool)" where
  "cleanClusterConfigurations_matching [] matchingClusterMap = matchingClusterMap"
| "cleanClusterConfigurations_matching (ref # rest) matchingClusterMap =
     cleanClusterConfigurations_matching rest
       (matchingClusterMap(info (refNamespace ref) (refName ref) \<mapsto> True))"

fun cleanClusterConfigurations_loop ::
  "ClusterProfile \<Rightarrow> (string \<rightharpoonup> bool) \<Rightarrow> ClusterConfiguration list \<Rightarrow> world \<Rightarrow> (error + unit) \<times> world" where
  "cleanClusterConfigurations_loop clusterProfile matchingClusterMap [] w = (Inr (), w)"
| "cleanClusterConfigurations_loop clusterProfile matchingClusterMap (cc # rest) w =
     (if matchingClusterMap (info (Namespace cc) (Name cc)) \<noteq> None
      then cleanClusterConfigurations_loop clusterProfile matchingClusterMap rest w
      else
        (case cleanClusterConfiguration w clusterProfile cc of
           (Inl err, w1) \<Rightarrow> (Inl err, w1)
         | (Inr u, w1) \<Rightarrow> cleanClusterConfigurations_loop clusterProfile matchingClusterMap rest w1))"

definition cleanClusterConfigurations :: "world \<Rightarrow> ClusterProfile \<Rightarrow> (error + unit) \<times> world" where
  "cleanClusterConfigurations w clusterProfileScope =
     (let matchingClusterMap =
            cleanClusterConfigurations_matching (MatchingClusterRefs clusterProfileScope) Map.empty
      in case List_ClusterConfiguration w of
           (Inl err, w1) \<Rightarrow> (Inl err, w1)
         | (Inr items, w1) \<Rightarrow>
             cleanClusterConfigurations_loop clusterProfileScope matchingClusterMap items w1)"

subsection \<open>Attaching configurations\<close>

definition createClusterConfiguration :: "world \<Rightarrow> ObjectReference \<Rightarrow> (error + unit) \<times> world" where
  "createClusterConfiguration w cluster =
     (let clusterConfiguration =
            \<lparr>Kind = [], APIVersion = [],
             Namespace = refNamespace cluster,
             Name = refName cluster,
             UID = [], Labels = [], Annotations = None,
             OwnerReferences = [], Finalizers = [], DeletionTimestamp = None,
             ClusterProfileResources = []\<rparr>
      in case Create_ClusterConfiguration w clusterConfiguration of
           (Inl err, w1) \<Rightarrow> if err = Api AlreadyExists then (Inr (), w1) else (Inl err, w1)
         | (Inr u, w1) \<Rightarrow> (Inr (), w1))"

text \<open>
  One try of the closure in \<^verbatim>\<open>updateClusterConfigurationOwnerReferences\<close>: the current
  version is read again, and its owner references are overwritten with those of the
  \<^verbatim>\<open>clusterConfiguration\<close> that was passed in, extended by the profile.
\<close>

definition updateClusterConfigurationOwnerReferences_try ::
  "OwnerReference \<Rightarrow> ClusterConfiguration \<Rightarrow> world \<Rightarrow> (error + unit) \<times> world" where
  "updateClusterConfigurationOwnerReferences_try ownerRef clusterConfiguration w =
     (case getClusterConfiguration w (Namespace clusterConfiguration) (Name clusterConfiguration) of
        (Inl err, w1) \<Rightarrow> (Inl err, w1)
      | (Inr currentClusterConfiguration, w1) \<Rightarrow>
          Update_ClusterConfiguration w1
            (currentClusterConfiguration\<lparr>OwnerReferences :=
               EnsureOwnerRef (OwnerReferences clusterConfiguration) ownerRef\<rparr>))"

definition updateClusterConfigurationOwnerReferences ::
  "world \<Rightarrow> ClusterProfile \<Rightarrow> ClusterConfiguration \<Rightarrow> (error + unit) \<times> world" where
  "updateClusterConfigurationOwnerReferences w clusterProfile clusterConfiguration =
     (if IsOwnedByObject clusterConfiguration clusterProfile then (Inr (), w)
      else
        (let ownerRef = \<lparr>ownerAPIVersion = APIVersion clusterProfile,
                         ownerKind = Kind clusterProfile,
                         ownerName = Name clusterProfile,
                         ownerUID = UID clusterProfile\<rparr>
         in RetryOnConflict DefaultRetry
              (updateClusterConfigurationOwnerReferences_try ownerRef clusterConfiguration) w))"

text \<open>
  The two nested closures of \<^verbatim>\<open>updateClusterConfigurationClusterProfileResources\<close>: the
  inner one reads the current version again and appends the block of the profile.
\<close>

definition updateClusterConfigurationClusterProfileResources_inner ::
  "ClusterProfile \<Rightarrow> ClusterConfiguration \<Rightarrow> world \<Rightarrow> (error + unit) \<times> world" where
  "updateClusterConfigurationClusterProfileResources_inner clusterProfile clusterConfiguration w =
     (case getClusterConfiguration w (Namespace clusterConfiguration) (Name clusterConfiguration) of
        (Inl err, w1) \<Rightarrow> (Inl err, w1)
      | (Inr currentClusterConfiguration, w1) \<Rightarrow>
          StatusUpdate_ClusterConfiguration w1
            (currentClusterConfiguration\<lparr>ClusterProfileResources :=
               ClusterProfileResources currentClusterConfiguration @
                 [\<lparr>ClusterProfileName = Name clusterProfile, Resources = []\<rparr>]\<rparr>))"

definition updateClusterConfigurationClusterProfileResources_try ::
  "ClusterProfile \<Rightarrow> ClusterConfiguration \<Rightarrow> world \<Rightarrow> (error + unit) \<times> world" where
  "updateClusterConfigurationClusterProfileResources_try clusterProfile clusterConfiguration w =
     (case getClusterConfiguration w (Namespace clusterConfiguration) (Name clusterConfiguration) of
        (Inl err, w1) \<Rightarrow> (Inl err, w1)
      | (Inr currentClusterConfiguration, w1) \<Rightarrow>
          if list_ex (\<lambda>r. ClusterProfileName r = Name clusterProfile)
               (ClusterProfileResources currentClusterConfiguration)
          then (Inr (), w1)
          else RetryOnConflict DefaultRetry
                 (updateClusterConfigurationClusterProfileResources_inner
                    clusterProfile clusterConfiguration) w1)"

definition updateClusterConfigurationClusterProfileResources ::
  "world \<Rightarrow> ClusterProfile \<Rightarrow> ClusterConfiguration \<Rightarrow> (error + unit) \<times> world" where
  "updateClusterConfigurationClusterProfileResources w clusterProfile clusterConfiguration =
     RetryOnConflict DefaultRetry
       (updateClusterConfigurationClusterProfileResources_try clusterProfile clusterConfiguration) w"

definition updateClusterConfiguration ::
  "world \<Rightarrow> ClusterProfile \<Rightarrow> ObjectReference \<Rightarrow> (error + unit) \<times> world" where
  "updateClusterConfiguration w clusterProfileScope cluster =
     (case getClusterConfiguration w (refNamespace cluster) (refName cluster) of
        (Inl err, w1) \<Rightarrow> (Inl err, w1)
      | (Inr clusterConfiguration, w1) \<Rightarrow>
          (case updateClusterConfigurationOwnerReferences w1 clusterProfileScope clusterConfiguration of
             (Inl err, w2) \<Rightarrow> (Inl err, w2)
           | (Inr u, w2) \<Rightarrow>
               (case updateClusterConfigurationClusterProfileResources w2 clusterProfileScope
                       clusterConfiguration of
                  (Inl err, w3) \<Rightarrow> (Inl err, w3)
                | (Inr u2, w3) \<Rightarrow> (Inr (), w3))))"

fun updateClusterConfigurations_loop ::
  "ClusterProfile \<Rightarrow> ObjectReference list \<Rightarrow> world \<Rightarrow> (error + unit) \<times> world" where
  "updateClusterConfigurations_loop clusterProfileScope [] w = (Inr (), w)"
| "updateClusterConfigurations_loop clusterProfileScope (cluster # rest) w =
     (case createClusterConfiguration w cluster of
        (Inl err, w1) \<Rightarrow> (Inl err, w1)
      | (Inr u, w1) \<Rightarrow>
          (case updateClusterConfiguration w1 clusterProfileScope cluster of
             (Inl err, w2) \<Rightarrow> (Inl err, w2)
           | (Inr u2, w2) \<Rightarrow> updateClusterConfigurations_loop clusterProfileScope rest w2))"

definition updateClusterConfigurations :: "world \<Rightarrow> ClusterProfile \<Rightarrow> (error + unit) \<times> world" where
  "updateClusterConfigurations w clusterProfileScope =
     updateClusterConfigurations_loop clusterProfileScope (MatchingClusterRefs clusterProfileScope) w"

subsection \<open>The in-memory indices\<close>

record ClusterProfileReconciler =
  ClusterMap :: "PolicyRef \<rightharpoonup> Set"
  ClusterProfileMap :: "PolicyRef \<rightharpoonup> Set"
  ClusterProfiles :: "PolicyRef \<rightharpoonup> string"

text \<open>
  \<^verbatim>\<open>getClusterMapForEntry\<close> returns a pointer to the set stored under the entry, storing an
  empty set first when there is none. The model returns the set and the reconciler; a
  caller that changes the set writes it back under the same entry.
\<close>

definition getClusterMapForEntry ::
  "ClusterProfileReconciler \<Rightarrow> PolicyRef \<Rightarrow> Set \<times> ClusterProfileReconciler" where
  "getClusterMapForEntry r entry =
     (case ClusterMap r entry of
        None \<Rightarrow> ([], r\<lparr>ClusterMap := (ClusterMap r)(entry \<mapsto> [])\<rparr>)
      | Some s \<Rightarrow> (s, r))"

fun updatesMaps_currentClusters :: "ObjectReference list \<Rightarrow> Set \<Rightarrow> Set" where
  "updatesMaps_currentClusters [] currentClusters = currentClusters"
| "updatesMaps_currentClusters (cluster # rest) currentClusters =
     updatesMaps_currentClusters rest
       (insert_Set currentClusters
          \<lparr>policyNamespace = refNamespace cluster, policyName = refName cluster,
           policyKind = ''Cluster''\<rparr>)"

fun updatesMaps_add ::
  "PolicyRef \<Rightarrow> ObjectReference list \<Rightarrow> ClusterProfileReconciler \<Rightarrow> ClusterProfileReconciler" where
  "updatesMaps_add clusterProfileInfo [] r = r"
| "updatesMaps_add clusterProfileInfo (cluster # rest) r =
     (let clusterInfo = \<lparr>policyNamespace = refNamespace cluster, policyName = refName cluster,
                          policyKind = ''Cluster''\<rparr>
      in case getClusterMapForEntry r clusterInfo of
           (s, r1) \<Rightarrow>
             updatesMaps_add clusterProfileInfo rest
               (r1\<lparr>ClusterMap := (ClusterMap r1)(clusterInfo \<mapsto> insert_Set s clusterProfileInfo)\<rparr>))"

fun updatesMaps_remove ::
  "PolicyRef \<Rightarrow> PolicyRef list \<Rightarrow> ClusterProfileReconciler \<Rightarrow> ClusterProfileReconciler" where
  "updatesMaps_remove clusterProfileInfo [] r = r"
| "updatesMaps_remove clusterProfileInfo (clusterName # rest) r =
     (case getClusterMapForEntry r clusterName of
        (s, r1) \<Rightarrow>
          updatesMaps_remove clusterProfileInfo rest
            (r1\<lparr>ClusterMap := (ClusterMap r1)(clusterName \<mapsto> erase s clusterProfileInfo)\<rparr>))"

definition updatesMaps :: "ClusterProfileReconciler \<Rightarrow> ClusterProfile \<Rightarrow> ClusterProfileReconciler" where
  "updatesMaps r clusterProfileScope =
     (let currentClusters = updatesMaps_currentClusters (MatchingClusterRefs clusterProfileScope) [];
          clusterProfileInfo = \<lparr>policyNamespace = [], policyName = Name clusterProfileScope,
                                policyKind = ClusterProfileKind\<rparr>;
          toBeRemoved = (case ClusterProfileMap r clusterProfileInfo of
                           Some v \<Rightarrow> difference v currentClusters
                         | None \<Rightarrow> []);
          r1 = updatesMaps_add clusterProfileInfo (MatchingClusterRefs clusterProfileScope) r;
          r2 = updatesMaps_remove clusterProfileInfo toBeRemoved r1
      in r2\<lparr>ClusterProfileMap := (ClusterProfileMap r2)(clusterProfileInfo \<mapsto> currentClusters),
            ClusterProfiles := (ClusterProfiles r2)
              (clusterProfileInfo \<mapsto> ClusterSelector (Spec clusterProfileScope))\<rparr>)"

subsection \<open>The drain checks\<close>

definition allClusterSummariesGone :: "world \<Rightarrow> ClusterProfile \<Rightarrow> bool \<times> world" where
  "allClusterSummariesGone w clusterProfileScope =
     (case List_ClusterSummary w [(ClusterProfileLabelName, Name clusterProfileScope)] of
        (Inl err, w1) \<Rightarrow> (False, w1)
      | (Inr items, w1) \<Rightarrow> (length items = 0, w1))"

definition canRemoveFinalizer :: "world \<Rightarrow> ClusterProfile \<Rightarrow> bool \<times> world" where
  "canRemoveFinalizer w clusterProfileScope = allClusterSummariesGone w clusterProfileScope"

subsection \<open>The two paths of a reconcile\<close>

definition reconcileDelete ::
  "world \<Rightarrow> ClusterProfile \<Rightarrow> (error + Result) \<times> world \<times> ClusterProfile" where
  "reconcileDelete w clusterProfileScope0 =
     (let clusterProfileScope = SetMatchingClusterRefs clusterProfileScope0 [] in
      case cleanClusterSummaries w clusterProfileScope of
        (Inl err, w1) \<Rightarrow> (Inl err, w1, clusterProfileScope)
      | (Inr u1, w1) \<Rightarrow>
      (case allClusterSummariesGone w1 clusterProfileScope of
         (gone, w2) \<Rightarrow>
      if \<not> gone
      then (Inr \<lparr>Requeue = True, RequeueAfter = deleteRequeueAfter\<rparr>, w2, clusterProfileScope)
      else
      (case cleanClusterConfigurations w2 clusterProfileScope of
         (Inl err, w3) \<Rightarrow> (Inl err, w3, clusterProfileScope)
       | (Inr u3, w3) \<Rightarrow>
      (case cleanClusterReports w3 clusterProfileScope of
         (Inl err, w4) \<Rightarrow> (Inl err, w4, clusterProfileScope)
       | (Inr u4, w4) \<Rightarrow>
      (case canRemoveFinalizer w4 clusterProfileScope of
         (removable, w5) \<Rightarrow>
      if \<not> removable
      then (Inr \<lparr>Requeue = True, RequeueAfter = deleteRequeueAfter\<rparr>, w5, clusterProfileScope)
      else
        (Inr \<lparr>Requeue = False, RequeueAfter = NoDelay\<rparr>, w5,
         if ContainsFinalizer clusterProfileScope ClusterProfileFinalizer
         then RemoveFinalizer clusterProfileScope ClusterProfileFinalizer
         else clusterProfileScope))))))"

definition reconcileNormal ::
  "(string \<Rightarrow> Selector option) \<Rightarrow> world \<Rightarrow> ClusterProfileReconciler \<Rightarrow> ClusterProfile \<Rightarrow>
     (error + Result) \<times> world \<times> ClusterProfileReconciler \<times> ClusterProfile" where
  "reconcileNormal Parse w r clusterProfileScope0 =
     (case (if \<not> ContainsFinalizer clusterProfileScope0 ClusterProfileFinalizer
            then addFinalizer w clusterProfileScope0
            else (Inr (), w, clusterProfileScope0)) of
        (Inl err, w1, scope1) \<Rightarrow> (Inl err, w1, r, scope1)
      | (Inr u1, w1, scope1) \<Rightarrow>
      (case getMatchingClusters Parse w1 scope1 of
         (Inl err, w2) \<Rightarrow> (Inl err, w2, r, scope1)
       | (Inr matchingCluster, w2) \<Rightarrow>
      (let clusterProfileScope = SetMatchingClusterRefs scope1 matchingCluster;
           r1 = updatesMaps r clusterProfileScope
       in
      case updateClusterConfigurations w2 clusterProfileScope of
         (Inl err, w3) \<Rightarrow> (Inl err, w3, r1, clusterProfileScope)
       | (Inr u3, w3) \<Rightarrow>
      (case updateClusterReports w3 clusterProfileScope of
         (Inl err, w4) \<Rightarrow> (Inl err, w4, r1, clusterProfileScope)
       | (Inr u4, w4) \<Rightarrow>
      (case updateClusterSummaries w4 clusterProfileScope of
         (Inl err, w5) \<Rightarrow> (Inl err, w5, r1, clusterProfileScope)
       | (Inr u5, w5) \<Rightarrow>
      (case cleanClusterSummaries w5 clusterProfileScope of
         (Inl err, w6) \<Rightarrow> (Inl err, w6, r1, clusterProfileScope)
       | (Inr u6, w6) \<Rightarrow>
      (case cleanClusterConfigurations w6 clusterProfileScope of
         (Inl err, w7) \<Rightarrow> (Inl err, w7, r1, clusterProfileScope)
       | (Inr u7, w7) \<Rightarrow>
          (Inr \<lparr>Requeue = False, RequeueAfter = NoDelay\<rparr>, w7, r1, clusterProfileScope))))))))"


section \<open>Concrete objects for the examples\<close>

text \<open>
  \<^verbatim>\<open>labels.Parse\<close> on the selector strings of the examples: \<^verbatim>\<open>env=prod\<close> parses to the
  equality requirement; any other string of the examples, such as \<^verbatim>\<open>env in\<close> (an operator
  without its list of values), does not parse.
\<close>

definition ex_Parse :: "string \<Rightarrow> Selector option" where
  "ex_Parse s = (if s = ''env=prod'' then Some (\<lambda>ls. ls ''env'' = Some ''prod'') else None)"

definition ex_meta :: "string \<Rightarrow> string \<Rightarrow> ObjectMeta" where
  "ex_meta ns n =
     \<lparr>Kind = [], APIVersion = [], Namespace = ns, Name = n, UID = [],
      Labels = [], Annotations = None, OwnerReferences = [], Finalizers = [],
      DeletionTimestamp = None\<rparr>"

text \<open>Three clusters: a live one in production, a live one in development, a terminating one.\<close>

definition ex_c1 :: Cluster where
  "ex_c1 = (ex_meta ''a'' ''c1'')\<lparr>Kind := ''Cluster'', Labels := [(''env'', ''prod'')]\<rparr>"

definition ex_c2 :: Cluster where
  "ex_c2 = (ex_meta ''a'' ''c2'')\<lparr>Kind := ''Cluster'', Labels := [(''env'', ''dev'')]\<rparr>"

definition ex_c3 :: Cluster where
  "ex_c3 = (ex_meta ''a'' ''c3'')\<lparr>Kind := ''Cluster'', Labels := [(''env'', ''prod'')],
                                  DeletionTimestamp := Some 7\<rparr>"

definition ex_profile :: "string \<Rightarrow> string \<Rightarrow> SyncMode \<Rightarrow> ObjectReference list \<Rightarrow> ClusterProfile" where
  "ex_profile n sel mode refs =
     \<lparr>Kind = ''ClusterProfile'', APIVersion = ''config.projectsveltos.io/v1alpha1'',
      Namespace = [], Name = n, UID = [],
      Labels = [], Annotations = None, OwnerReferences = [],
      Finalizers = [ClusterProfileFinalizer], DeletionTimestamp = None,
      Spec = \<lparr>ClusterSelector = sel, SyncMode = mode, Features = []\<rparr>,
      MatchingClusterRefs = refs\<rparr>"

definition ex_ref :: "string \<Rightarrow> string \<Rightarrow> ObjectReference" where
  "ex_ref ns n = \<lparr>refKind = ''Cluster'', refNamespace = ns, refName = n\<rparr>"

definition ex_owner :: "string \<Rightarrow> OwnerReference" where
  "ex_owner n = \<lparr>ownerAPIVersion = ''config.projectsveltos.io/v1alpha1'',
                 ownerKind = ''ClusterProfile'', ownerName = n, ownerUID = []\<rparr>"

definition ex_world :: world where
  "ex_world = \<lparr>clusters = [ex_c1, ex_c2, ex_c3], machines = [], clusterConfigurations = [],
               clusterReports = [], clusterSummaries = [], faults = []\<rparr>"

definition ex_reconciler :: ClusterProfileReconciler where
  "ex_reconciler = \<lparr>ClusterMap = Map.empty, ClusterProfileMap = Map.empty,
                    ClusterProfiles = Map.empty\<rparr>"

definition ex_world_faults :: "api_error option list \<Rightarrow> world" where
  "ex_world_faults fs = ex_world\<lparr>faults := fs\<rparr>"

text \<open>
  A summary as \<^verbatim>\<open>createClusterSummary\<close> writes it for a profile and a cluster, with the
  sync mode embedded at that time and the finalizers a deployer has put on it.
\<close>

definition ex_summary :: "string \<Rightarrow> string \<Rightarrow> string \<Rightarrow> SyncMode \<Rightarrow> string list \<Rightarrow> ClusterSummary" where
  "ex_summary pn ns cn mode fins =
     \<lparr>Kind = [], APIVersion = [], Namespace = ns, Name = GetClusterSummaryName pn cn, UID = [],
      Labels = [(ClusterProfileLabelName, pn), (ClusterLabelNamespace, ns), (ClusterLabelName, cn)],
      Annotations = None, OwnerReferences = [ex_owner pn], Finalizers = fins,
      DeletionTimestamp = None,
      SummarySpec = \<lparr>ClusterNamespace = ns, ClusterName = cn,
                     ClusterProfileSpec = \<lparr>ClusterSelector = ''env=prod'', SyncMode = mode,
                                           Features = []\<rparr>\<rparr>\<rparr>"

definition ex_report :: "string \<Rightarrow> string \<Rightarrow> string \<Rightarrow> ClusterReport" where
  "ex_report pn ns cn =
     \<lparr>Kind = [], APIVersion = [], Namespace = ns, Name = getClusterReportName pn cn, UID = [],
      Labels = [(ClusterProfileLabelName, pn)],
      Annotations = None, OwnerReferences = [], Finalizers = [], DeletionTimestamp = None,
      ReportSpec = \<lparr>ReportClusterNamespace = ns, ReportClusterName = cn\<rparr>\<rparr>"

definition ex_config ::
  "string \<Rightarrow> string \<Rightarrow> OwnerReference list \<Rightarrow> ClusterProfileResource list \<Rightarrow> ClusterConfiguration" where
  "ex_config ns cn owners blocks =
     \<lparr>Kind = [], APIVersion = [], Namespace = ns, Name = cn, UID = [],
      Labels = [], Annotations = None, OwnerReferences = owners, Finalizers = [],
      DeletionTimestamp = None, ClusterProfileResources = blocks\<rparr>"

definition ex_block :: "string \<Rightarrow> ClusterProfileResource" where
  "ex_block pn = \<lparr>ClusterProfileName = pn, Resources = []\<rparr>"


text \<open>A running control-plane machine of cluster \<^verbatim>\<open>a/c1\<close>.\<close>

definition ex_machine :: Machine where
  "ex_machine =
     \<lparr>Kind = [], APIVersion = [], Namespace = ''a'', Name = ''m1'', UID = [],
      Labels = [(clusterv1_ClusterLabelName, ''c1''), (MachineControlPlaneLabelName, [])],
      Annotations = None, OwnerReferences = [], Finalizers = [], DeletionTimestamp = None,
      Phase = ''Running''\<rparr>"

text \<open>
  Profile \<^verbatim>\<open>p1\<close> in one-time mode after its feature payload was edited, and the world in
  which its summary for \<^verbatim>\<open>a/c1\<close> still carries the payload it was created with.
\<close>

definition ex_profile_edited :: ClusterProfile where
  "ex_profile_edited =
     (ex_profile ''p1'' ''env=prod'' SyncModeOneTime [])
       \<lparr>Spec := \<lparr>ClusterSelector = ''env=prod'', SyncMode = SyncModeOneTime,
                 Features = ''charts-v2''\<rparr>\<rparr>"

definition ex_world_onetime :: world where
  "ex_world_onetime =
     ex_world\<lparr>machines := [ex_machine],
              clusterSummaries := [ex_summary ''p1'' ''a'' ''c1'' SyncModeOneTime []]\<rparr>"


section \<open>Reading the indices\<close>

text \<open>
  Membership in the two inverse indices; a key without an entry holds nothing. The two
  keys that \<^verbatim>\<open>updatesMaps\<close> builds: \<^verbatim>\<open>clusterInfo\<close> for a matching cluster and
  \<^verbatim>\<open>clusterProfileInfo\<close> for the profile.
\<close>

definition inClusterMap :: "ClusterProfileReconciler \<Rightarrow> PolicyRef \<Rightarrow> PolicyRef \<Rightarrow> bool" where
  "inClusterMap r cluster profile =
     (case ClusterMap r cluster of None \<Rightarrow> False | Some s \<Rightarrow> has s profile)"

definition inClusterProfileMap :: "ClusterProfileReconciler \<Rightarrow> PolicyRef \<Rightarrow> PolicyRef \<Rightarrow> bool" where
  "inClusterProfileMap r profile cluster =
     (case ClusterProfileMap r profile of None \<Rightarrow> False | Some s \<Rightarrow> has s cluster)"

definition clusterInfoOf :: "ObjectReference \<Rightarrow> PolicyRef" where
  "clusterInfoOf cluster =
     \<lparr>policyNamespace = refNamespace cluster, policyName = refName cluster, policyKind = ''Cluster''\<rparr>"

definition clusterProfileInfoOf :: "ClusterProfile \<Rightarrow> PolicyRef" where
  "clusterProfileInfoOf clusterProfileScope =
     \<lparr>policyNamespace = [], policyName = Name clusterProfileScope, policyKind = ClusterProfileKind\<rparr>"


section \<open>Relating the summaries before and after a step\<close>

text \<open>
  A summary \<open>s'\<close> descends from \<open>s\<close> when it has the same namespace and name and its
  specification is that of \<open>s\<close>, but possibly for the embedded sync mode, set to \<open>mode\<close>.
  A list of summaries is pruned from another when each of its summaries descends from one of
  the other; it has grown from another when it only adds summaries under new names.
\<close>

definition alignedWith :: "SyncMode \<Rightarrow> ClusterSummarySpec \<Rightarrow> ClusterSummarySpec" where
  "alignedWith mode spec =
     spec\<lparr>ClusterProfileSpec := (ClusterProfileSpec spec)\<lparr>SyncMode := mode\<rparr>\<rparr>"

definition descends :: "SyncMode \<Rightarrow> ClusterSummary \<Rightarrow> ClusterSummary \<Rightarrow> bool" where
  "descends mode s' s \<longleftrightarrow>
     objKey s' = objKey s \<and>
     (SummarySpec s' = SummarySpec s \<or> SummarySpec s' = alignedWith mode (SummarySpec s))"

definition pruned :: "SyncMode \<Rightarrow> ClusterSummary list \<Rightarrow> ClusterSummary list \<Rightarrow> bool" where
  "pruned mode old new \<longleftrightarrow> (\<forall>s' \<in> set new. \<exists>s \<in> set old. descends mode s' s)"

definition grown :: "ClusterSummary list \<Rightarrow> ClusterSummary list \<Rightarrow> bool" where
  "grown old new \<longleftrightarrow>
     (\<exists>added. new = old @ added \<and> (\<forall>n \<in> set added. objKey n \<notin> objKey ` set old))"


section \<open>The effect of pruning on one summary\<close>

text \<open>
  Requesting the deletion of a summary that a finalizer holds stamps it as terminating;
  aligning it writes it back with its embedded sync mode set to that of the profile. A
  summary is matched when its cluster, by namespace and name, is among the matching clusters
  of the profile. Pruning concerns the summaries labelled with the profile that the profile
  owns: each is aligned, after the request to delete it when it is not matched.
\<close>

definition stamped :: "ClusterSummary \<Rightarrow> ClusterSummary" where
  "stamped s = (if IsZero (DeletionTimestamp s) then s\<lparr>DeletionTimestamp := Some 1\<rparr> else s)"

definition aligned :: "ClusterProfile \<Rightarrow> ClusterSummary \<Rightarrow> ClusterSummary" where
  "aligned p s = serialised (s\<lparr>SummarySpec := alignedWith (SyncMode (Spec p)) (SummarySpec s)\<rparr>)"

definition summaryMatched :: "ClusterProfile \<Rightarrow> ClusterSummary \<Rightarrow> bool" where
  "summaryMatched p s =
     list_ex (\<lambda>ref. refNamespace ref = ClusterNamespace (SummarySpec s) \<and>
                    refName ref = ClusterName (SummarySpec s))
       (MatchingClusterRefs p)"

definition pruneEffect :: "ClusterProfile \<Rightarrow> ClusterSummary \<Rightarrow> ClusterSummary" where
  "pruneEffect p s =
     (if MatchingLabels [(ClusterProfileLabelName, Name p)] s \<and> IsOwnedByObject s p
      then aligned p (if summaryMatched p s then s else stamped s)
      else s)"

text \<open>
  \<^verbatim>\<open>cleanClusterSummaries\<close> itself compares the keys \<^verbatim>\<open>namespace-name\<close> that it builds with
  \<^const>\<open>getClusterInfo\<close>: the keys of the matching clusters, the key of the cluster of a
  summary, and what the loop does to an owned summary according to them.
\<close>

definition matchKeys :: "ClusterProfile \<Rightarrow> string list" where
  "matchKeys p = map (\<lambda>ref. getClusterInfo (refNamespace ref) (refName ref)) (MatchingClusterRefs p)"

definition summaryKey :: "ClusterSummary \<Rightarrow> string" where
  "summaryKey s = getClusterInfo (ClusterNamespace (SummarySpec s)) (ClusterName (SummarySpec s))"

definition keyedEffect :: "ClusterProfile \<Rightarrow> ClusterSummary \<Rightarrow> ClusterSummary" where
  "keyedEffect p s =
     (if IsOwnedByObject s p
      then aligned p (if summaryKey s \<in> set (matchKeys p) then s else stamped s)
      else s)"


section \<open>The match set\<close>

text \<open>
  With a parsed selector the loop appends, in the order of the listing, a reference for
  every cluster that is not terminating and whose labels the selector accepts. With a nil
  selector it only returns when every listed cluster is terminating.
\<close>

lemma getMatchingClusters_loop_Some:
  "getMatchingClusters_loop (Some m) cs acc =
     Inr (acc @ map (\<lambda>c. \<lparr>refKind = Kind c, refNamespace = Namespace c, refName = Name c\<rparr>)
                  (filter (\<lambda>c. IsZero (DeletionTimestamp c) \<and> m (map_of (Labels c))) cs))"
  by (induction cs arbitrary: acc) simp_all

lemma getMatchingClusters_loop_None:
  "getMatchingClusters_loop None cs acc = Inr refs \<Longrightarrow>
     refs = acc \<and> (\<forall>c\<in>set cs. \<not> IsZero (DeletionTimestamp c))"
  by (induction cs arbitrary: acc) (auto split: if_splits)

lemma next_fault_clusters: "next_fault w = (f, w1) \<Longrightarrow> clusters w1 = clusters w"
  by (auto simp: next_fault_def split: list.splits)

lemma getMatchingClusters_Inr:
  assumes "getMatchingClusters Parse w p = (Inr refs, w1)"
  shows "case Parse (ClusterSelector (Spec p)) of
           Some m \<Rightarrow> refs = map (\<lambda>c. \<lparr>refKind = Kind c, refNamespace = Namespace c, refName = Name c\<rparr>)
                  (filter (\<lambda>c. IsZero (DeletionTimestamp c) \<and> m (map_of (Labels c))) (clusters w))
         | None \<Rightarrow> refs = [] \<and> (\<forall>c\<in>set (clusters w). \<not> IsZero (DeletionTimestamp c))"
proof -
  from assms obtain w0 where nf: "next_fault w = (None, w0)"
    and loop: "getMatchingClusters_loop (Parse (ClusterSelector (Spec p))) (clusters w0) [] = Inr refs"
    by (auto simp: getMatchingClusters_def List_Cluster_def GetSelector_def
        split: prod.splits option.splits sum.splits)
  from nf have cl: "clusters w0 = clusters w" by (rule next_fault_clusters)
  show ?thesis
  proof (cases "Parse (ClusterSelector (Spec p))")
    case None
    with loop cl getMatchingClusters_loop_None [of "clusters w" "[]" refs] show ?thesis by simp
  next
    case (Some m)
    with loop cl show ?thesis by (simp add: getMatchingClusters_loop_Some)
  qed
qed

lemma addFinalizer_frame:
  "addFinalizer w p = (res, w1, p1) \<Longrightarrow> clusters w1 = clusters w \<and> Spec p1 = Spec p"
  by (auto simp: addFinalizer_def PatchObject_def api_write_def AddFinalizer_def Let_def
      dest: next_fault_clusters split: prod.splits option.splits sum.splits if_splits)

lemma reconcileNormal_status:
  assumes "reconcileNormal Parse w r p = (Inr res, w', r', p')"
  shows "\<exists>w1 w2 p1. getMatchingClusters Parse w1 p1 = (Inr (MatchingClusterRefs p'), w2)
           \<and> clusters w1 = clusters w \<and> Spec p1 = Spec p"
proof (cases "ContainsFinalizer p ClusterProfileFinalizer")
  case True
  with assms obtain w2 refs where "getMatchingClusters Parse w p = (Inr refs, w2)"
    and "p' = SetMatchingClusterRefs p refs"
    by (auto simp: reconcileNormal_def Let_def split: prod.splits sum.splits)
  then show ?thesis by (auto simp: SetMatchingClusterRefs_def)
next
  case False
  with assms obtain w1 p1 w2 refs where af: "addFinalizer w p = (Inr (), w1, p1)"
    and "getMatchingClusters Parse w1 p1 = (Inr refs, w2)"
    and "p' = SetMatchingClusterRefs p1 refs"
    by (auto simp: reconcileNormal_def Let_def split: prod.splits sum.splits)
  with addFinalizer_frame [OF af] show ?thesis by (auto simp: SetMatchingClusterRefs_def)
qed

text \<open>
  Claim C7. After a reconcile of profile \<open>p\<close> that succeeds, a listed cluster \<open>c\<close> appears
  in the status field \<^verbatim>\<open>MatchingClusterRefs\<close> of the profile if and only if its deletion
  timestamp is zero and its labels satisfy the selector of the profile. Clusters are
  identified by namespace and name, which are unique among the listed clusters.
\<close>

theorem reconcileNormal_selector_faithful:
  assumes run: "reconcileNormal Parse w r p = (Inr res, w', r', p')"
      and keys: "distinct (map objKey (clusters w))"
      and c: "c \<in> set (clusters w)"
  shows "(\<exists>ref \<in> set (MatchingClusterRefs p').
            refNamespace ref = Namespace c \<and> refName ref = Name c)
         \<longleftrightarrow> (IsZero (DeletionTimestamp c) \<and>
              (\<exists>m. Parse (ClusterSelector (Spec p)) = Some m \<and> m (map_of (Labels c))))"
proof -
  from reconcileNormal_status [OF run] obtain w1 w2 p1
    where g: "getMatchingClusters Parse w1 p1 = (Inr (MatchingClusterRefs p'), w2)"
      and cl: "clusters w1 = clusters w" and sp: "Spec p1 = Spec p" by blast
  have same: "\<And>d. d \<in> set (clusters w) \<Longrightarrow> Namespace d = Namespace c \<Longrightarrow> Name d = Name c \<Longrightarrow> d = c"
    using keys c by (metis distinct_map inj_onD objKey_def)
  show ?thesis
  proof (cases "Parse (ClusterSelector (Spec p))")
    case None
    with getMatchingClusters_Inr [OF g] cl sp c show ?thesis by auto
  next
    case (Some m)
    with getMatchingClusters_Inr [OF g] cl sp
    have refs: "MatchingClusterRefs p' =
        map (\<lambda>c. \<lparr>refKind = Kind c, refNamespace = Namespace c, refName = Name c\<rparr>)
            (filter (\<lambda>c. IsZero (DeletionTimestamp c) \<and> m (map_of (Labels c))) (clusters w))"
      by simp
    show ?thesis
    proof
      assume "\<exists>ref \<in> set (MatchingClusterRefs p'). refNamespace ref = Namespace c \<and> refName ref = Name c"
      then obtain d where d: "d \<in> set (clusters w)" "IsZero (DeletionTimestamp d)" "m (map_of (Labels d))"
        "Namespace d = Namespace c" "Name d = Name c"
        unfolding refs by auto
      with same have "d = c" by blast
      with d Some show "IsZero (DeletionTimestamp c) \<and>
              (\<exists>m. Parse (ClusterSelector (Spec p)) = Some m \<and> m (map_of (Labels c)))" by simp
    next
      assume "IsZero (DeletionTimestamp c) \<and>
              (\<exists>m. Parse (ClusterSelector (Spec p)) = Some m \<and> m (map_of (Labels c)))"
      with Some c show "\<exists>ref \<in> set (MatchingClusterRefs p'). refNamespace ref = Namespace c \<and> refName ref = Name c"
        unfolding refs by auto
    qed
  qed
qed

theorem reconcileNormal_selector_faithful_witness:
  "fst (reconcileNormal ex_Parse ex_world ex_reconciler
          (ex_profile ''p1'' ''env=prod'' SyncModeContinuous [])) =
     Inr \<lparr>Requeue = False, RequeueAfter = NoDelay\<rparr> \<and>
   distinct (map objKey (clusters ex_world)) \<and>
   ex_c1 \<in> set (clusters ex_world) \<and> ex_c3 \<in> set (clusters ex_world) \<and>
   (\<exists>ref \<in> set (MatchingClusterRefs (snd (snd (snd (reconcileNormal ex_Parse ex_world ex_reconciler
          (ex_profile ''p1'' ''env=prod'' SyncModeContinuous [])))))).
      refNamespace ref = ''a'' \<and> refName ref = ''c1'') \<and>
   \<not> (\<exists>ref \<in> set (MatchingClusterRefs (snd (snd (snd (reconcileNormal ex_Parse ex_world ex_reconciler
          (ex_profile ''p1'' ''env=prod'' SyncModeContinuous [])))))).
      refNamespace ref = ''a'' \<and> refName ref = ''c3'')"
proof -
  let ?p = "ex_profile ''p1'' ''env=prod'' SyncModeContinuous []"
  let ?X = "reconcileNormal ex_Parse ex_world ex_reconciler ?p"
  have res: "fst ?X = Inr \<lparr>Requeue = False, RequeueAfter = NoDelay\<rparr>" by code_simp
  have run: "?X = (Inr \<lparr>Requeue = False, RequeueAfter = NoDelay\<rparr>,
                   fst (snd ?X), fst (snd (snd ?X)), snd (snd (snd ?X)))"
    using res by (metis prod.collapse)
  have keys: "distinct (map objKey (clusters ex_world))" by code_simp
  have c1: "ex_c1 \<in> set (clusters ex_world)" by code_simp
  have c3: "ex_c3 \<in> set (clusters ex_world)" by code_simp
  have sel: "ex_Parse (ClusterSelector (Spec ?p)) = Some (\<lambda>ls. ls ''env'' = Some ''prod'')"
    by (simp add: ex_Parse_def ex_profile_def)
  have live1: "IsZero (DeletionTimestamp ex_c1)" by code_simp
  have lab1: "map_of (Labels ex_c1) ''env'' = Some ''prod''" by code_simp
  have dead3: "\<not> IsZero (DeletionTimestamp ex_c3)" by code_simp
  have n1: "Namespace ex_c1 = ''a'' \<and> Name ex_c1 = ''c1''" by code_simp
  have n3: "Namespace ex_c3 = ''a'' \<and> Name ex_c3 = ''c3''" by code_simp
  from reconcileNormal_selector_faithful [OF run keys c1] sel live1 lab1 n1
  have in1: "\<exists>ref \<in> set (MatchingClusterRefs (snd (snd (snd ?X)))).
               refNamespace ref = ''a'' \<and> refName ref = ''c1''"
    by simp
  from reconcileNormal_selector_faithful [OF run keys c3] dead3 n3
  have out3: "\<not> (\<exists>ref \<in> set (MatchingClusterRefs (snd (snd (snd ?X)))).
               refNamespace ref = ''a'' \<and> refName ref = ''c3'')"
    by simp
  from res keys c1 c3 in1 out3 show ?thesis by blast
qed

text \<open>
  With a nil selector and no scripted failure, the matcher panics exactly when the listing
  holds a cluster that is not terminating; otherwise it returns the empty match set.
\<close>

lemma getMatchingClusters_loop_nil:
  "getMatchingClusters_loop None cs acc =
     (if list_ex (\<lambda>c. IsZero (DeletionTimestamp c)) cs then Inl NilDereference else Inr acc)"
  by (induction cs arbitrary: acc) auto

lemma getMatchingClusters_nil_selector:
  assumes "Parse (GetSelector p) = None" and "faults w = []"
  shows "getMatchingClusters Parse w p =
           (if list_ex (\<lambda>c. IsZero (DeletionTimestamp c)) (clusters w)
            then Inl NilDereference else Inr [], w)"
  using assms
  by (simp add: getMatchingClusters_def List_Cluster_def next_fault_def getMatchingClusters_loop_nil)

text \<open>
  Claim C4. An unparseable selector is meant to match nothing and to let the reconcile go
  on. The code drops the parse error and calls \<^verbatim>\<open>Matches\<close> on the nil selector: with the
  selector \<^verbatim>\<open>env in\<close> and one live cluster in the listing, \<^verbatim>\<open>getMatchingClusters\<close> panics.
\<close>

theorem getMatchingClusters_unparseable_selector_panics:
  "ex_Parse (GetSelector (ex_profile ''p1'' ''env in'' SyncModeContinuous [])) = None \<and>
   getMatchingClusters ex_Parse ex_world (ex_profile ''p1'' ''env in'' SyncModeContinuous []) =
     (Inl NilDereference, ex_world)"
  by (simp add: getMatchingClusters_def List_Cluster_def next_fault_def ex_world_def ex_Parse_def
      ex_profile_def GetSelector_def ex_c1_def ex_meta_def IsZero_def)


section \<open>The delete path\<close>

text \<open>
  A client call takes the head of the fault script, whatever it decides. The drain check
  changes nothing else, fails on a labelled summary, and succeeds only on an empty listing.
\<close>

lemma next_fault_eq:
  "next_fault w = (case faults w of [] \<Rightarrow> None | f # fs \<Rightarrow> f, w\<lparr>faults := tl (faults w)\<rparr>)"
  by (cases "faults w") (simp_all add: next_fault_def)


lemma allClusterSummariesGone_frame:
  "allClusterSummariesGone w q = (b, w') \<Longrightarrow> w' = w\<lparr>faults := tl (faults w)\<rparr>"
  by (auto simp: allClusterSummariesGone_def List_ClusterSummary_def api_read_def next_fault_eq
      split: list.splits option.splits)


lemma allClusterSummariesGone_fault:
  "faults w = Some e # fs \<Longrightarrow> allClusterSummariesGone w q = (False, w\<lparr>faults := fs\<rparr>)"
  by (simp add: allClusterSummariesGone_def List_ClusterSummary_def api_read_def next_fault_def)




text \<open>
  Claim C10. When the listing of the summaries fails, \<^verbatim>\<open>allClusterSummariesGone\<close> (and with
  it \<^verbatim>\<open>canRemoveFinalizer\<close>) returns false and no error. On the delete path, a listing that
  fails at the first drain check, in the world \<open>wl\<close> left by the cleaning of the summaries, or
  at the second, in the world \<open>wl\<close> left by the cleaning of the reports, ends the reconcile
  with a requeue after \<^verbatim>\<open>deleteRequeueAfter\<close> and the finalizers of the profile untouched.
\<close>

theorem allClusterSummariesGone_listing_failure:
  assumes "faults wl = Some e # fs"
  shows "allClusterSummariesGone wl q = (False, wl\<lparr>faults := fs\<rparr>) \<and>
         canRemoveFinalizer wl q = (False, wl\<lparr>faults := fs\<rparr>) \<and>
         (cleanClusterSummaries w (SetMatchingClusterRefs p []) = (Inr (), wl) \<longrightarrow>
            reconcileDelete w p =
              (Inr \<lparr>Requeue = True, RequeueAfter = deleteRequeueAfter\<rparr>, wl\<lparr>faults := fs\<rparr>,
               SetMatchingClusterRefs p [])) \<and>
         (cleanClusterSummaries w (SetMatchingClusterRefs p []) = (Inr (), w1) \<and>
          allClusterSummariesGone w1 (SetMatchingClusterRefs p []) = (True, w2) \<and>
          cleanClusterConfigurations w2 (SetMatchingClusterRefs p []) = (Inr (), w3) \<and>
          cleanClusterReports w3 (SetMatchingClusterRefs p []) = (Inr (), wl) \<longrightarrow>
            reconcileDelete w p =
              (Inr \<lparr>Requeue = True, RequeueAfter = deleteRequeueAfter\<rparr>, wl\<lparr>faults := fs\<rparr>,
               SetMatchingClusterRefs p [])) \<and>
         Finalizers (SetMatchingClusterRefs p []) = Finalizers p"
  using allClusterSummariesGone_fault [OF assms]
  by (simp add: reconcileDelete_def canRemoveFinalizer_def Let_def SetMatchingClusterRefs_def)

theorem allClusterSummariesGone_listing_failure_witness:
  "faults (ex_world_faults [Some ServerError]) = [Some ServerError] \<and>
   allClusterSummariesGone (ex_world_faults [Some ServerError])
      (ex_profile ''p1'' ''env=prod'' SyncModeContinuous []) = (False, ex_world_faults []) \<and>
   cleanClusterSummaries (ex_world_faults [None, Some ServerError])
      (SetMatchingClusterRefs (ex_profile ''p1'' ''env=prod'' SyncModeContinuous []) []) =
     (Inr (), ex_world_faults [Some ServerError]) \<and>
   reconcileDelete (ex_world_faults [None, Some ServerError])
      (ex_profile ''p1'' ''env=prod'' SyncModeContinuous []) =
     (Inr \<lparr>Requeue = True, RequeueAfter = deleteRequeueAfter\<rparr>, ex_world_faults [],
      SetMatchingClusterRefs (ex_profile ''p1'' ''env=prod'' SyncModeContinuous []) []) \<and>
   reconcileDelete (ex_world_faults [None, None, None, None, Some ServerError])
      (ex_profile ''p1'' ''env=prod'' SyncModeContinuous []) =
     (Inr \<lparr>Requeue = True, RequeueAfter = deleteRequeueAfter\<rparr>, ex_world_faults [],
      SetMatchingClusterRefs (ex_profile ''p1'' ''env=prod'' SyncModeContinuous []) []) \<and>
   Finalizers (SetMatchingClusterRefs (ex_profile ''p1'' ''env=prod'' SyncModeContinuous []) []) =
     [ClusterProfileFinalizer]"
proof -
  let ?p = "ex_profile ''p1'' ''env=prod'' SyncModeContinuous []"
  let ?pd = "SetMatchingClusterRefs ?p []"
  let ?wl = "ex_world_faults [Some ServerError]"
  have f: "faults ?wl = Some ServerError # []" by code_simp
  have after: "?wl\<lparr>faults := []\<rparr> = ex_world_faults []" by code_simp
  have c1: "cleanClusterSummaries (ex_world_faults [None, Some ServerError]) ?pd = (Inr (), ?wl)"
    by code_simp
  have d1: "cleanClusterSummaries (ex_world_faults [None, None, None, None, Some ServerError]) ?pd =
              (Inr (), ex_world_faults [None, None, None, Some ServerError])"
    by code_simp
  have d2: "allClusterSummariesGone (ex_world_faults [None, None, None, Some ServerError]) ?pd =
              (True, ex_world_faults [None, None, Some ServerError])"
    by code_simp
  have d3: "cleanClusterConfigurations (ex_world_faults [None, None, Some ServerError]) ?pd =
              (Inr (), ex_world_faults [None, Some ServerError])"
    by code_simp
  have d4: "cleanClusterReports (ex_world_faults [None, Some ServerError]) ?pd = (Inr (), ?wl)"
    by code_simp
  have fin: "Finalizers ?p = [ClusterProfileFinalizer]" by code_simp
  from allClusterSummariesGone_listing_failure
         [where wl = ?wl and e = ServerError and fs = "[]" and q = ?p and p = ?p
            and w = "ex_world_faults [None, Some ServerError]", OF f] c1 after
  have first: "allClusterSummariesGone ?wl ?p = (False, ex_world_faults [])"
    "reconcileDelete (ex_world_faults [None, Some ServerError]) ?p =
       (Inr \<lparr>Requeue = True, RequeueAfter = deleteRequeueAfter\<rparr>, ex_world_faults [], ?pd)"
    "Finalizers ?pd = Finalizers ?p"
    by simp_all
  from allClusterSummariesGone_listing_failure
         [where wl = ?wl and e = ServerError and fs = "[]" and q = ?p and p = ?p
            and w = "ex_world_faults [None, None, None, None, Some ServerError]"
            and ?w1.0 = "ex_world_faults [None, None, None, Some ServerError]"
            and ?w2.0 = "ex_world_faults [None, None, Some ServerError]"
            and ?w3.0 = "ex_world_faults [None, Some ServerError]", OF f] d1 d2 d3 d4 after
  have second: "reconcileDelete (ex_world_faults [None, None, None, None, Some ServerError]) ?p =
       (Inr \<lparr>Requeue = True, RequeueAfter = deleteRequeueAfter\<rparr>, ex_world_faults [], ?pd)"
    by simp
  from f first second c1 fin show ?thesis by simp
qed


section \<open>The in-memory indices\<close>

lemma set_currentClusters:
  "set (updatesMaps_currentClusters refs acc) = set acc \<union> clusterInfoOf ` set refs"
  by (induction refs arbitrary: acc) (auto simp: insert_Set_def clusterInfoOf_def)

lemma set_difference: "set (difference s s2) = set s - set s2"
  by (auto simp: difference_def has_def)

lemma updatesMaps_add_other:
  "ClusterProfileMap (updatesMaps_add q refs r) = ClusterProfileMap r \<and>
   ClusterProfiles (updatesMaps_add q refs r) = ClusterProfiles r"
  by (induction refs arbitrary: r) (auto simp: getClusterMapForEntry_def Let_def split: option.splits)

lemma updatesMaps_remove_other:
  "ClusterProfileMap (updatesMaps_remove q cs r) = ClusterProfileMap r \<and>
   ClusterProfiles (updatesMaps_remove q cs r) = ClusterProfiles r"
  by (induction cs arbitrary: r) (auto simp: getClusterMapForEntry_def Let_def split: option.splits)

lemma inClusterMap_insert_step:
  assumes "getClusterMapForEntry r e = (s, r1)"
  shows "inClusterMap (r1\<lparr>ClusterMap := (ClusterMap r1)(e \<mapsto> insert_Set s q)\<rparr>) c p \<longleftrightarrow>
           inClusterMap r c p \<or> (p = q \<and> c = e)"
  using assms
  by (auto simp: getClusterMapForEntry_def inClusterMap_def insert_Set_def has_def
      split: option.splits if_splits)

lemma inClusterMap_erase_step:
  assumes "getClusterMapForEntry r e = (s, r1)"
  shows "inClusterMap (r1\<lparr>ClusterMap := (ClusterMap r1)(e \<mapsto> erase s q)\<rparr>) c p \<longleftrightarrow>
           inClusterMap r c p \<and> \<not> (p = q \<and> c = e)"
  using assms
  by (auto simp: getClusterMapForEntry_def inClusterMap_def erase_def has_def
      split: option.splits if_splits)

lemma inClusterMap_add:
  "inClusterMap (updatesMaps_add q refs r) c p \<longleftrightarrow>
     inClusterMap r c p \<or> (p = q \<and> c \<in> clusterInfoOf ` set refs)"
proof (induction refs arbitrary: r)
  case Nil
  then show ?case by simp
next
  case (Cons a refs)
  obtain s r1 where g: "getClusterMapForEntry r (clusterInfoOf a) = (s, r1)"
    by (cases "getClusterMapForEntry r (clusterInfoOf a)")
  have "updatesMaps_add q (a # refs) r =
          updatesMaps_add q refs (r1\<lparr>ClusterMap := (ClusterMap r1)(clusterInfoOf a \<mapsto> insert_Set s q)\<rparr>)"
    using g by (simp add: Let_def clusterInfoOf_def)
  then show ?case
    using Cons.IH inClusterMap_insert_step [OF g] by auto
qed

lemma inClusterMap_remove:
  "inClusterMap (updatesMaps_remove q cs r) c p \<longleftrightarrow>
     inClusterMap r c p \<and> \<not> (p = q \<and> c \<in> set cs)"
proof (induction cs arbitrary: r)
  case Nil
  then show ?case by simp
next
  case (Cons a cs)
  obtain s r1 where g: "getClusterMapForEntry r a = (s, r1)"
    by (cases "getClusterMapForEntry r a")
  have "updatesMaps_remove q (a # cs) r =
          updatesMaps_remove q cs (r1\<lparr>ClusterMap := (ClusterMap r1)(a \<mapsto> erase s q)\<rparr>)"
    using g by simp
  then show ?case
    using Cons.IH inClusterMap_erase_step [OF g] by auto
qed

text \<open>
  Claim C9. Assume that before the call a profile is in \<^verbatim>\<open>ClusterMap[C]\<close> exactly when \<open>C\<close> is
  in \<^verbatim>\<open>ClusterProfileMap[P]\<close>. After \<^verbatim>\<open>updatesMaps\<close> for profile \<open>q\<close>, the entry of \<open>q\<close> in
  \<^verbatim>\<open>ClusterProfileMap\<close> is exactly the match set of \<open>q\<close>; \<open>q\<close> is in \<^verbatim>\<open>ClusterMap[C]\<close> exactly when
  \<open>C\<close> is in the match set; the entries of every other profile are as before; and the two
  indices are again inverse to each other.
\<close>

theorem updatesMaps_consistent:
  assumes inv: "\<forall>P C. inClusterMap r C P \<longleftrightarrow> inClusterProfileMap r P C"
  shows "(\<exists>s. ClusterProfileMap (updatesMaps r q) (clusterProfileInfoOf q) = Some s \<and>
              set s = clusterInfoOf ` set (MatchingClusterRefs q)) \<and>
         (\<forall>C. inClusterMap (updatesMaps r q) C (clusterProfileInfoOf q) \<longleftrightarrow>
                C \<in> clusterInfoOf ` set (MatchingClusterRefs q)) \<and>
         (\<forall>P. P \<noteq> clusterProfileInfoOf q \<longrightarrow>
                ClusterProfileMap (updatesMaps r q) P = ClusterProfileMap r P \<and>
                (\<forall>C. inClusterMap (updatesMaps r q) C P \<longleftrightarrow> inClusterMap r C P)) \<and>
         (\<forall>P C. inClusterMap (updatesMaps r q) C P \<longleftrightarrow> inClusterProfileMap (updatesMaps r q) P C)"
proof -
  let ?Q = "clusterProfileInfoOf q"
  let ?cur = "updatesMaps_currentClusters (MatchingClusterRefs q) []"
  let ?rem = "case ClusterProfileMap r ?Q of Some v \<Rightarrow> difference v ?cur | None \<Rightarrow> []"
  let ?r2 = "updatesMaps_remove ?Q ?rem (updatesMaps_add ?Q (MatchingClusterRefs q) r)"
  have cur: "set ?cur = clusterInfoOf ` set (MatchingClusterRefs q)"
    by (simp add: set_currentClusters)
  have rem: "\<And>C. C \<in> set ?rem \<longleftrightarrow> inClusterProfileMap r ?Q C \<and> C \<notin> clusterInfoOf ` set (MatchingClusterRefs q)"
    by (cases "ClusterProfileMap r ?Q") (simp_all add: inClusterProfileMap_def has_def set_difference cur)
  have cpm: "ClusterProfileMap (updatesMaps r q) = (ClusterProfileMap r)(?Q \<mapsto> ?cur)"
    by (simp add: updatesMaps_def Let_def clusterProfileInfoOf_def updatesMaps_add_other updatesMaps_remove_other)
  have cm: "\<And>C P. inClusterMap (updatesMaps r q) C P \<longleftrightarrow> inClusterMap ?r2 C P"
    by (simp add: updatesMaps_def Let_def clusterProfileInfoOf_def inClusterMap_def)
  have cmq: "\<And>C. inClusterMap (updatesMaps r q) C ?Q \<longleftrightarrow> C \<in> clusterInfoOf ` set (MatchingClusterRefs q)"
    using inv unfolding cm inClusterMap_remove inClusterMap_add rem by blast
  have cmo: "\<And>C P. P \<noteq> ?Q \<Longrightarrow> inClusterMap (updatesMaps r q) C P \<longleftrightarrow> inClusterMap r C P"
    unfolding cm inClusterMap_remove inClusterMap_add by blast
  have cpq: "\<And>C. inClusterProfileMap (updatesMaps r q) ?Q C \<longleftrightarrow> C \<in> clusterInfoOf ` set (MatchingClusterRefs q)"
    by (simp add: inClusterProfileMap_def cpm has_def cur)
  have cpo: "\<And>C P. P \<noteq> ?Q \<Longrightarrow> inClusterProfileMap (updatesMaps r q) P C \<longleftrightarrow> inClusterProfileMap r P C"
    by (simp add: inClusterProfileMap_def cpm)
  have 1: "\<exists>s. ClusterProfileMap (updatesMaps r q) ?Q = Some s \<and>
              set s = clusterInfoOf ` set (MatchingClusterRefs q)"
    by (simp add: cpm cur)
  have 3: "\<forall>P. P \<noteq> ?Q \<longrightarrow>
                ClusterProfileMap (updatesMaps r q) P = ClusterProfileMap r P \<and>
                (\<forall>C. inClusterMap (updatesMaps r q) C P \<longleftrightarrow> inClusterMap r C P)"
    by (simp add: cpm cmo)
  have 4: "\<forall>P C. inClusterMap (updatesMaps r q) C P \<longleftrightarrow> inClusterProfileMap (updatesMaps r q) P C"
  proof (intro allI)
    fix P C
    show "inClusterMap (updatesMaps r q) C P \<longleftrightarrow> inClusterProfileMap (updatesMaps r q) P C"
      using inv by (cases "P = ?Q") (simp_all add: cmq cpq cmo cpo)
  qed
  from 1 cmq 3 4 show ?thesis by blast
qed

theorem updatesMaps_consistent_witness:
  "(\<forall>P C. inClusterMap ex_reconciler C P \<longleftrightarrow> inClusterProfileMap ex_reconciler P C) \<and>
   inClusterMap
     (updatesMaps
        (updatesMaps ex_reconciler
           (ex_profile ''p1'' ''env=prod'' SyncModeContinuous [ex_ref ''a'' ''c1'', ex_ref ''a'' ''c2'']))
        (ex_profile ''p1'' ''env=prod'' SyncModeContinuous [ex_ref ''a'' ''c1'']))
     (clusterInfoOf (ex_ref ''a'' ''c1''))
     (clusterProfileInfoOf (ex_profile ''p1'' ''env=prod'' SyncModeContinuous [ex_ref ''a'' ''c1''])) \<and>
   \<not> inClusterMap
     (updatesMaps
        (updatesMaps ex_reconciler
           (ex_profile ''p1'' ''env=prod'' SyncModeContinuous [ex_ref ''a'' ''c1'', ex_ref ''a'' ''c2'']))
        (ex_profile ''p1'' ''env=prod'' SyncModeContinuous [ex_ref ''a'' ''c1'']))
     (clusterInfoOf (ex_ref ''a'' ''c2''))
     (clusterProfileInfoOf (ex_profile ''p1'' ''env=prod'' SyncModeContinuous [ex_ref ''a'' ''c1'']))"
proof -
  let ?pa = "ex_profile ''p1'' ''env=prod'' SyncModeContinuous [ex_ref ''a'' ''c1'', ex_ref ''a'' ''c2'']"
  let ?pb = "ex_profile ''p1'' ''env=prod'' SyncModeContinuous [ex_ref ''a'' ''c1'']"
  have inv0: "\<forall>P C. inClusterMap ex_reconciler C P \<longleftrightarrow> inClusterProfileMap ex_reconciler P C"
    by (simp add: inClusterMap_def inClusterProfileMap_def ex_reconciler_def)
  from updatesMaps_consistent [OF inv0, of ?pa]
  have inv1: "\<forall>P C. inClusterMap (updatesMaps ex_reconciler ?pa) C P \<longleftrightarrow>
                     inClusterProfileMap (updatesMaps ex_reconciler ?pa) P C"
    by blast
  from updatesMaps_consistent [OF inv1, of ?pb]
  have m: "\<forall>C. inClusterMap (updatesMaps (updatesMaps ex_reconciler ?pa) ?pb) C (clusterProfileInfoOf ?pb)
                \<longleftrightarrow> C \<in> clusterInfoOf ` set (MatchingClusterRefs ?pb)"
    by blast
  have refs: "MatchingClusterRefs ?pb = [ex_ref ''a'' ''c1'']" by (simp add: ex_profile_def)
  have ne: "clusterInfoOf (ex_ref ''a'' ''c2'') \<noteq> clusterInfoOf (ex_ref ''a'' ''c1'')"
    by (simp add: clusterInfoOf_def ex_ref_def)
  from inv0 m refs ne show ?thesis by simp
qed


section \<open>Reports and owner references\<close>

text \<open>
  Claim C1. A report labelled with a profile should exist for a cluster exactly when the
  profile is in dry-run mode and matches the cluster. In dry-run mode \<^verbatim>\<open>updateClusterReports\<close>
  only creates reports: with profile \<^verbatim>\<open>p1\<close> in dry-run mode matching \<^verbatim>\<open>a/c1\<close> alone, the
  report left for \<^verbatim>\<open>a/c2\<close>, which is no longer matched, is still stored afterwards.
\<close>

theorem updateClusterReports_keeps_stale_report:
  "updateClusterReports (ex_world\<lparr>clusterReports := [ex_report ''p1'' ''a'' ''c2'']\<rparr>)
      (ex_profile ''p1'' ''env=prod'' SyncModeDryRun [ex_ref ''a'' ''c1'']) =
     (Inr (), ex_world\<lparr>clusterReports := [ex_report ''p1'' ''a'' ''c2'', ex_report ''p1'' ''a'' ''c1'']\<rparr>)"
  by code_simp

text \<open>
  Claim C6. Adding the profile as owner should write the owner references of the version
  that was read again, extended by the profile. The closure writes those of the
  \<^verbatim>\<open>clusterConfiguration\<close> it was handed instead. One interleaving of two workers: the worker
  of \<^verbatim>\<open>p1\<close> reads the configuration of \<^verbatim>\<open>a/c1\<close>, which has no owner yet; the worker of \<^verbatim>\<open>p2\<close>
  then runs \<^verbatim>\<open>updateClusterConfiguration\<close> and becomes an owner; the worker of \<^verbatim>\<open>p1\<close> goes on
  with the copy it read, and its update drops \<^verbatim>\<open>p2\<close> from the stored object.
\<close>

theorem updateClusterConfigurationOwnerReferences_drops_owner:
  "getClusterConfiguration (ex_world\<lparr>clusterConfigurations := [ex_config ''a'' ''c1'' [] []]\<rparr>)
      ''a'' ''c1'' =
     (Inr (ex_config ''a'' ''c1'' [] []),
      ex_world\<lparr>clusterConfigurations := [ex_config ''a'' ''c1'' [] []]\<rparr>) \<and>
   updateClusterConfiguration (ex_world\<lparr>clusterConfigurations := [ex_config ''a'' ''c1'' [] []]\<rparr>)
      (ex_profile ''p2'' ''env=prod'' SyncModeContinuous [ex_ref ''a'' ''c1'']) (ex_ref ''a'' ''c1'') =
     (Inr (), ex_world\<lparr>clusterConfigurations :=
                 [ex_config ''a'' ''c1'' [ex_owner ''p2''] [ex_block ''p2'']]\<rparr>) \<and>
   updateClusterConfigurationOwnerReferences
      (ex_world\<lparr>clusterConfigurations := [ex_config ''a'' ''c1'' [ex_owner ''p2''] [ex_block ''p2'']]\<rparr>)
      (ex_profile ''p1'' ''env=prod'' SyncModeContinuous [ex_ref ''a'' ''c1''])
      (ex_config ''a'' ''c1'' [] []) =
     (Inr (), ex_world\<lparr>clusterConfigurations :=
                 [ex_config ''a'' ''c1'' [ex_owner ''p1''] [ex_block ''p2'']]\<rparr>)"
  by code_simp

text \<open>
  Claim C3. A configuration that the profile owns and whose cluster is not in the match set
  should lose the profile as owner. The match set is kept under the keys
  \<^verbatim>\<open>namespace--name\<close>, and the cluster \<^verbatim>\<open>a/b--c\<close> has the key of the matched cluster \<^verbatim>\<open>a--b/c\<close>:
  its configuration is skipped and stays owned by \<^verbatim>\<open>p1\<close>.
\<close>

theorem cleanClusterConfigurations_key_collision:
  "info ''a'' ''b--c'' = info ''a--b'' ''c'' \<and>
   cleanClusterConfigurations
      (ex_world\<lparr>clusterConfigurations := [ex_config ''a'' ''b--c'' [ex_owner ''p1''] [ex_block ''p1'']]\<rparr>)
      (ex_profile ''p1'' ''env=prod'' SyncModeContinuous [ex_ref ''a--b'' ''c'']) =
     (Inr (), ex_world\<lparr>clusterConfigurations :=
                 [ex_config ''a'' ''b--c'' [ex_owner ''p1''] [ex_block ''p1'']]\<rparr>)"
  by code_simp


section \<open>What a reconcile does to the summaries\<close>

lemma alignedWith_idem: "alignedWith m (alignedWith m spec) = alignedWith m spec"
  by (simp add: alignedWith_def)

lemma descends_refl: "descends m s s"
  by (simp add: descends_def)

lemma descends_trans: "descends m s'' s' \<Longrightarrow> descends m s' s \<Longrightarrow> descends m s'' s"
  by (auto simp: descends_def alignedWith_idem)

lemma pruned_refl: "pruned m xs xs"
  unfolding pruned_def using descends_refl by blast

lemma pruned_trans: "pruned m xs ys \<Longrightarrow> pruned m ys zs \<Longrightarrow> pruned m xs zs"
  unfolding pruned_def by (meson descends_trans)

lemma grown_refl: "grown xs xs"
  by (simp add: grown_def)

lemma grown_trans:
  assumes "grown xs ys" and "grown ys zs"
  shows "grown xs zs"
proof -
  from assms obtain a b where a: "ys = xs @ a" "\<forall>n \<in> set a. objKey n \<notin> objKey ` set xs"
    and b: "zs = ys @ b" "\<forall>n \<in> set b. objKey n \<notin> objKey ` set ys"
    unfolding grown_def by blast
  then have "zs = xs @ (a @ b)" and "\<forall>n \<in> set (a @ b). objKey n \<notin> objKey ` set xs"
    by auto
  then show ?thesis unfolding grown_def by blast
qed

text \<open>The store operations and the client calls on summaries.\<close>

lemma find_key: "find (\<lambda>x. objKey x = k) objs = Some x \<Longrightarrow> x \<in> set objs \<and> objKey x = k"
  by (induction objs) (auto split: if_splits)

lemma store_get_Inr: "store_get objs k = Inr x \<Longrightarrow> x \<in> set objs \<and> objKey x = k"
  by (auto simp: store_get_def dest: find_key split: option.splits)

lemma objKey_serialised [simp]: "objKey (serialised obj) = objKey obj"
  by (simp add: serialised_def objKey_def)

lemma SummarySpec_serialised [simp]: "SummarySpec (serialised s) = SummarySpec s"
  by (simp add: serialised_def)

lemma store_create_grown:
  assumes "store_create objs obj = Inr objs'"
  shows "grown objs objs'"
proof -
  from assms have n: "find (\<lambda>x. objKey x = objKey obj) objs = None"
    and o: "objs' = objs @ [serialised obj]"
    by (auto simp: store_create_def split: option.splits)
  from n have "objKey (serialised obj) \<notin> objKey ` set objs"
    by (auto simp: find_None_iff)
  with o show ?thesis unfolding grown_def by auto
qed

lemma descends_stamp: "descends m (y\<lparr>DeletionTimestamp := t\<rparr>) y"
  by (simp add: descends_def objKey_def)

lemma store_delete_pruned:
  assumes "store_delete objs k = Inr objs'"
  shows "pruned m objs objs'"
proof -
  from assms consider
      "objs' = filter (\<lambda>y. objKey y \<noteq> k) objs"
    | "objs' = map (\<lambda>y. if objKey y = k \<and> IsZero (DeletionTimestamp y)
                               then y\<lparr>DeletionTimestamp := Some 1\<rparr> else y) objs"
    by (auto simp: store_delete_def split: option.splits if_splits)
  then show ?thesis
  proof cases
    case 1
    then show ?thesis unfolding pruned_def using descends_refl by auto
  next
    case 2
    show ?thesis unfolding pruned_def
    proof
      fix s' assume "s' \<in> set objs'"
      with 2 obtain y where y: "y \<in> set objs"
        and "s' = (if objKey y = k \<and> IsZero (DeletionTimestamp y)
                   then y\<lparr>DeletionTimestamp := Some 1\<rparr> else y)" by auto
      then have "descends m s' y" by (simp add: descends_stamp descends_refl)
      with y show "\<exists>s \<in> set objs. descends m s' s" by blast
    qed
  qed
qed

lemma store_update_pruned:
  assumes "store_update objs obj = Inr objs'" and "s \<in> set objs" and "descends m obj s"
  shows "pruned m objs objs'"
proof -
  from assms(1) have o: "objs' = map (\<lambda>y. if objKey y = objKey obj then serialised obj else y) objs"
    by (auto simp: store_update_def split: option.splits)
  from assms(3) have ds: "descends m (serialised obj) s"
    by (simp add: descends_def)
  show ?thesis unfolding pruned_def
  proof
    fix s' assume "s' \<in> set objs'"
    with o obtain y where y: "y \<in> set objs"
      and s': "s' = (if objKey y = objKey obj then serialised obj else y)"
      by auto
    show "\<exists>s \<in> set objs. descends m s' s"
    proof (cases "objKey y = objKey obj")
      case True
      with s' assms(2) ds show ?thesis by auto
    next
      case False
      with s' y descends_refl show ?thesis by auto
    qed
  qed
qed

lemma api_read_frame: "api_read w f = (r, w') \<Longrightarrow> w' = w\<lparr>faults := tl (faults w)\<rparr>"
  by (auto simp: api_read_def next_fault_eq split: option.splits sum.splits list.splits)

lemma Get_ClusterSummary_Inr:
  "Get_ClusterSummary w k = (Inr x, w') \<Longrightarrow>
     x \<in> set (clusterSummaries w) \<and> objKey x = k \<and> clusterSummaries w' = clusterSummaries w"
  by (auto simp: Get_ClusterSummary_def api_read_def next_fault_eq
      dest: store_get_Inr split: option.splits sum.splits list.splits)

lemma Get_ClusterSummary_frame:
  "Get_ClusterSummary w k = (r, w') \<Longrightarrow> clusterSummaries w' = clusterSummaries w"
  by (auto simp: Get_ClusterSummary_def dest: api_read_frame)

lemma Delete_ClusterSummary_pruned:
  "Delete_ClusterSummary w x = (r, w') \<Longrightarrow> pruned m (clusterSummaries w) (clusterSummaries w')"
  by (auto simp: Delete_ClusterSummary_def api_write_def next_fault_eq pruned_refl
      dest: store_delete_pruned split: option.splits sum.splits list.splits)

lemma Update_ClusterSummary_pruned:
  assumes "Update_ClusterSummary w obj = (r, w')" and "s \<in> set (clusterSummaries w)"
    and "descends m obj s"
  shows "pruned m (clusterSummaries w) (clusterSummaries w')"
  using assms
  by (auto simp: Update_ClusterSummary_def api_write_def next_fault_eq pruned_refl
      dest: store_update_pruned split: option.splits sum.splits list.splits)

lemma Create_ClusterSummary_grown:
  "Create_ClusterSummary w x = (r, w') \<Longrightarrow> grown (clusterSummaries w) (clusterSummaries w')"
  by (auto simp: Create_ClusterSummary_def api_write_def next_fault_eq grown_refl
      dest: store_create_grown split: option.splits sum.splits list.splits)

lemma updateClusterSummarySyncMode_pruned:
  assumes "updateClusterSummarySyncMode w p cs = (r, w')"
  shows "pruned (SyncMode (Spec p)) (clusterSummaries w) (clusterSummaries w')"
proof (cases "Get_ClusterSummary w (Namespace cs, Name cs)")
  case (Pair g w1)
  show ?thesis
  proof (cases g)
    case (Inl e)
    with Pair assms Get_ClusterSummary_frame [OF Pair] show ?thesis
      by (simp add: updateClusterSummarySyncMode_def pruned_refl)
  next
    case (Inr cur)
    with Pair Get_ClusterSummary_Inr [of w _ cur w1]
    have cur: "cur \<in> set (clusterSummaries w1)" and same: "clusterSummaries w1 = clusterSummaries w"
      by auto
    let ?new = "cur\<lparr>SummarySpec := (SummarySpec cur)
               \<lparr>ClusterProfileSpec := (ClusterProfileSpec (SummarySpec cur))
                  \<lparr>SyncMode := SyncMode (Spec p)\<rparr>\<rparr>\<rparr>"
    have d: "descends (SyncMode (Spec p)) ?new cur"
      by (simp add: descends_def alignedWith_def objKey_def)
    from assms Pair Inr have "Update_ClusterSummary w1 ?new = (r, w')"
      by (simp add: updateClusterSummarySyncMode_def)
    from Update_ClusterSummary_pruned [OF this cur d] same show ?thesis by simp
  qed
qed

lemma cleanClusterSummaries_loop_pruned:
  "cleanClusterSummaries_loop p m xs w = (r, w') \<Longrightarrow>
     pruned (SyncMode (Spec p)) (clusterSummaries w) (clusterSummaries w')"
proof (induction xs arbitrary: w)
  case Nil
  then show ?case by (simp add: pruned_refl)
next
  case (Cons x xs)
  show ?case
  proof (cases "IsOwnedByObject x p")
    case False
    with Cons show ?thesis by simp
  next
    case True
    obtain d w1 where del: "(if m (getClusterInfo (ClusterNamespace (SummarySpec x))
                                           (ClusterName (SummarySpec x))) = None
               then deleteClusterSummary w x else (Inr (), w)) = (d, w1)"
      by (cases "(if m (getClusterInfo (ClusterNamespace (SummarySpec x))
                                           (ClusterName (SummarySpec x))) = None
               then deleteClusterSummary w x else (Inr (), w))")
    then have p1: "pruned (SyncMode (Spec p)) (clusterSummaries w) (clusterSummaries w1)"
      by (auto simp: deleteClusterSummary_def pruned_refl dest: Delete_ClusterSummary_pruned
          split: if_splits)
    show ?thesis
    proof (cases d)
      case (Inl e)
      with Cons.prems True del p1 show ?thesis by simp
    next
      case (Inr u)
      obtain a w2 where al: "updateClusterSummarySyncMode w1 p x = (a, w2)"
        by (cases "updateClusterSummarySyncMode w1 p x")
      note p2 = updateClusterSummarySyncMode_pruned [OF al]
      show ?thesis
      proof (cases a)
        case (Inl e)
        with Cons.prems True del Inr al have "w' = w2" by simp
        with p1 p2 show ?thesis by (blast intro: pruned_trans)
      next
        case (Inr u2)
        with Cons.prems True del \<open>d = Inr u\<close> al
        have "cleanClusterSummaries_loop p m xs w2 = (r, w')" by simp
        from Cons.IH [OF this] p1 p2 show ?thesis by (blast intro: pruned_trans)
      qed
    qed
  qed
qed

lemma List_ClusterSummary_frame:
  "List_ClusterSummary w ls = (r, w') \<Longrightarrow> clusterSummaries w' = clusterSummaries w"
  by (auto simp: List_ClusterSummary_def dest: api_read_frame)

lemma cleanClusterSummaries_pruned:
  assumes "cleanClusterSummaries w p = (r, w')"
  shows "pruned (SyncMode (Spec p)) (clusterSummaries w) (clusterSummaries w')"
proof (cases "List_ClusterSummary w [(ClusterProfileLabelName, Name p)]")
  case (Pair l w1)
  note same = List_ClusterSummary_frame [OF Pair]
  show ?thesis
  proof (cases l)
    case (Inl e)
    with assms Pair same show ?thesis by (simp add: cleanClusterSummaries_def pruned_refl)
  next
    case (Inr items)
    with assms Pair have "cleanClusterSummaries_loop p
        (cleanClusterSummaries_matching (MatchingClusterRefs p) Map.empty) items w1 = (r, w')"
      by (simp add: cleanClusterSummaries_def)
    from cleanClusterSummaries_loop_pruned [OF this] same show ?thesis by simp
  qed
qed


text \<open>Frames: calls that leave the summaries alone.\<close>

lemma api_write_summaries:
  assumes "api_write w f = (r, w')"
    and "\<And>w1 w2. f w1 = Inr w2 \<Longrightarrow> clusterSummaries w2 = clusterSummaries w1"
  shows "clusterSummaries w' = clusterSummaries w"
  using assms
  by (auto simp: api_write_def next_fault_eq split: option.splits sum.splits list.splits)

lemma PatchObject_summaries:
  "PatchObject w p = (r, w') \<Longrightarrow> clusterSummaries w' = clusterSummaries w"
  unfolding PatchObject_def by (erule api_write_summaries) simp

lemma addFinalizer_summaries:
  "addFinalizer w p = (r, w', p') \<Longrightarrow> clusterSummaries w' = clusterSummaries w \<and> Spec p' = Spec p"
  by (auto simp: addFinalizer_def Let_def AddFinalizer_def dest: PatchObject_summaries
      split: prod.splits sum.splits)

lemma getMatchingClusters_summaries:
  "getMatchingClusters Parse w p = (r, w') \<Longrightarrow> clusterSummaries w' = clusterSummaries w"
  by (auto simp: getMatchingClusters_def List_Cluster_def next_fault_eq
      split: prod.splits sum.splits option.splits list.splits)

lemma List_Machine_summaries:
  "List_Machine w ns ls = (r, w') \<Longrightarrow> clusterSummaries w' = clusterSummaries w"
  by (auto simp: List_Machine_def dest: api_read_frame)

lemma isClusterReadyToBeConfigured_summaries:
  "isClusterReadyToBeConfigured w p c = (r, w') \<Longrightarrow> clusterSummaries w' = clusterSummaries w"
  by (auto simp: isClusterReadyToBeConfigured_def getMachinesForCluster_def
      dest: List_Machine_summaries split: prod.splits sum.splits)

lemma createClusterSummary_grown:
  "createClusterSummary w p c = (r, w') \<Longrightarrow> grown (clusterSummaries w) (clusterSummaries w')"
  by (auto simp: createClusterSummary_def Let_def dest: Create_ClusterSummary_grown)

lemma updateClusterSummary_OneTime:
  "IsOneTimeSync p \<Longrightarrow> updateClusterSummary w p c = (Inr (), w)"
  by (simp add: updateClusterSummary_def)

lemma updateClusterSummaries_loop_grown:
  assumes "IsOneTimeSync p"
  shows "updateClusterSummaries_loop p refs w = (r, w') \<Longrightarrow>
           grown (clusterSummaries w) (clusterSummaries w')"
proof (induction refs arbitrary: w)
  case Nil
  then show ?case by (simp add: grown_refl)
next
  case (Cons c refs)
  obtain rd w1 where rdy: "isClusterReadyToBeConfigured w p c = (rd, w1)"
    by (cases "isClusterReadyToBeConfigured w p c")
  note s1 = isClusterReadyToBeConfigured_summaries [OF rdy]
  show ?case
  proof (cases rd)
    case (Inl e)
    with Cons.prems rdy s1 show ?thesis by (simp add: grown_refl)
  next
    case (Inr ready)
    show ?thesis
    proof (cases ready)
      case False
      with Cons.prems rdy Inr have "updateClusterSummaries_loop p refs w1 = (r, w')" by simp
      from Cons.IH [OF this] s1 show ?thesis by simp
    next
      case True
      obtain g w2 where get: "getClusterSummary w1 (Name p) (refNamespace c) (refName c) = (g, w2)"
        by (cases "getClusterSummary w1 (Name p) (refNamespace c) (refName c)")
      then have s2: "clusterSummaries w2 = clusterSummaries w1"
        by (auto simp: getClusterSummary_def dest: Get_ClusterSummary_frame)
      show ?thesis
      proof (cases g)
        case (Inl e)
        show ?thesis
        proof (cases "e = Api NotFound")
          case False
          with Cons.prems rdy Inr True get Inl s1 s2 show ?thesis by (simp add: grown_refl)
        next
          case nf: True
          obtain cr w3 where cre: "createClusterSummary w2 p c = (cr, w3)"
            by (cases "createClusterSummary w2 p c")
          with Cons.prems rdy Inr True get Inl nf
          have "updateClusterSummaries_loop p refs w3 = (r, w')" by simp
          from Cons.IH [OF this] createClusterSummary_grown [OF cre] s1 s2
          show ?thesis by (auto intro: grown_trans)
        qed
      next
        case (Inr found)
        with Cons.prems rdy \<open>rd = Inr ready\<close> True get updateClusterSummary_OneTime [OF assms]
        have "updateClusterSummaries_loop p refs w2 = (r, w')" by simp
        from Cons.IH [OF this] s1 s2 show ?thesis by simp
      qed
    qed
  qed
qed


lemma api_read_summaries:
  "api_read w f = (r, w') \<Longrightarrow> clusterSummaries w' = clusterSummaries w"
  by (auto dest: api_read_frame)

lemma ClusterConfiguration_calls_summaries:
  "List_ClusterConfiguration w = (rl, w') \<Longrightarrow> clusterSummaries w' = clusterSummaries w"
  "Get_ClusterConfiguration w k = (rg, w') \<Longrightarrow> clusterSummaries w' = clusterSummaries w"
  "Create_ClusterConfiguration w cc = (r, w') \<Longrightarrow> clusterSummaries w' = clusterSummaries w"
  "Delete_ClusterConfiguration w cc = (r, w') \<Longrightarrow> clusterSummaries w' = clusterSummaries w"
  "Update_ClusterConfiguration w cc = (r, w') \<Longrightarrow> clusterSummaries w' = clusterSummaries w"
  "StatusUpdate_ClusterConfiguration w cc = (r, w') \<Longrightarrow> clusterSummaries w' = clusterSummaries w"
  unfolding List_ClusterConfiguration_def Get_ClusterConfiguration_def
    Create_ClusterConfiguration_def Delete_ClusterConfiguration_def
    Update_ClusterConfiguration_def StatusUpdate_ClusterConfiguration_def
  by (auto elim!: api_write_summaries dest: api_read_summaries split: sum.splits)

lemma ClusterReport_calls_summaries:
  "List_ClusterReport w ls = (rl, w') \<Longrightarrow> clusterSummaries w' = clusterSummaries w"
  "Create_ClusterReport w rep = (r, w') \<Longrightarrow> clusterSummaries w' = clusterSummaries w"
  "Delete_ClusterReport w rep = (r, w') \<Longrightarrow> clusterSummaries w' = clusterSummaries w"
  unfolding List_ClusterReport_def Create_ClusterReport_def Delete_ClusterReport_def
  by (auto elim!: api_write_summaries dest: api_read_summaries split: sum.splits)

lemma OnError_summaries:
  assumes "\<And>w r w'. fn w = (r, w') \<Longrightarrow> clusterSummaries w' = clusterSummaries w"
  shows "OnError n fn l w = (r, w') \<Longrightarrow> clusterSummaries w' = clusterSummaries w"
proof (induction n arbitrary: l w)
  case 0
  then show ?case by (auto split: option.splits)
next
  case (Suc n)
  obtain a w1 where f: "fn w = (a, w1)" by (cases "fn w")
  note s1 = assms [OF f]
  show ?case
  proof (cases a)
    case (Inr u)
    with Suc.prems f s1 show ?thesis by simp
  next
    case (Inl e)
    show ?thesis
    proof (cases "e = Api Conflict")
      case True
      with Suc.prems f Inl have "OnError n fn (Some e) w1 = (r, w')" by simp
      from Suc.IH [OF this] s1 show ?thesis by simp
    next
      case False
      with Suc.prems f Inl s1 show ?thesis by simp
    qed
  qed
qed

lemma RetryOnConflict_summaries:
  assumes "\<And>w r w'. fn w = (r, w') \<Longrightarrow> clusterSummaries w' = clusterSummaries w"
  shows "RetryOnConflict n fn w = (r, w') \<Longrightarrow> clusterSummaries w' = clusterSummaries w"
  unfolding RetryOnConflict_def using assms by (rule OnError_summaries)

lemma getClusterConfiguration_summaries:
  "getClusterConfiguration w ns n = (r, w') \<Longrightarrow> clusterSummaries w' = clusterSummaries w"
  by (auto simp: getClusterConfiguration_def dest: ClusterConfiguration_calls_summaries)

lemma cleanClusterConfigurationOwnerReferences_summaries:
  "cleanClusterConfigurationOwnerReferences w p cc = (r, w') \<Longrightarrow>
     clusterSummaries w' = clusterSummaries w"
  by (auto simp: cleanClusterConfigurationOwnerReferences_def Let_def
      dest!: ClusterConfiguration_calls_summaries split: if_splits)

lemma cleanClusterConfigurationClusterProfileResources_try_summaries:
  "cleanClusterConfigurationClusterProfileResources_try p cc w = (r, w') \<Longrightarrow>
     clusterSummaries w' = clusterSummaries w"
  by (auto simp: cleanClusterConfigurationClusterProfileResources_try_def
      dest!: ClusterConfiguration_calls_summaries getClusterConfiguration_summaries
      split: prod.splits sum.splits option.splits if_splits)

lemma cleanClusterConfiguration_summaries:
  "cleanClusterConfiguration w p cc = (r, w') \<Longrightarrow> clusterSummaries w' = clusterSummaries w"
proof -
  assume a: "cleanClusterConfiguration w p cc = (r, w')"
  obtain a1 w1 where o: "cleanClusterConfigurationOwnerReferences w p cc = (a1, w1)"
    by (cases "cleanClusterConfigurationOwnerReferences w p cc")
  note s1 = cleanClusterConfigurationOwnerReferences_summaries [OF o]
  obtain a2 w2 where c: "cleanClusterConfigurationClusterProfileResources w1 p cc = (a2, w2)"
    by (cases "cleanClusterConfigurationClusterProfileResources w1 p cc")
  then have s2: "clusterSummaries w2 = clusterSummaries w1"
    unfolding cleanClusterConfigurationClusterProfileResources_def
    by (rule RetryOnConflict_summaries [rotated])
       (rule cleanClusterConfigurationClusterProfileResources_try_summaries)
  from a o c s1 s2 show ?thesis
    by (auto simp: cleanClusterConfiguration_def split: sum.splits)
qed

lemma cleanClusterConfigurations_loop_summaries:
  "cleanClusterConfigurations_loop p m ccs w = (r, w') \<Longrightarrow> clusterSummaries w' = clusterSummaries w"
proof (induction ccs arbitrary: w)
  case Nil
  then show ?case by simp
next
  case (Cons cc ccs)
  show ?case
  proof (cases "m (info (Namespace cc) (Name cc)) \<noteq> None")
    case True
    with Cons show ?thesis by simp
  next
    case False
    obtain a w1 where c: "cleanClusterConfiguration w p cc = (a, w1)"
      by (cases "cleanClusterConfiguration w p cc")
    note s1 = cleanClusterConfiguration_summaries [OF c]
    show ?thesis
    proof (cases a)
      case (Inl e)
      with Cons.prems False c s1 show ?thesis by simp
    next
      case (Inr u)
      with Cons.prems False c have "cleanClusterConfigurations_loop p m ccs w1 = (r, w')" by simp
      from Cons.IH [OF this] s1 show ?thesis by simp
    qed
  qed
qed

lemma cleanClusterConfigurations_summaries:
  "cleanClusterConfigurations w p = (r, w') \<Longrightarrow> clusterSummaries w' = clusterSummaries w"
  by (auto simp: cleanClusterConfigurations_def Let_def
      dest!: ClusterConfiguration_calls_summaries cleanClusterConfigurations_loop_summaries
      split: prod.splits sum.splits)

lemma createClusterReport_summaries:
  "createClusterReport w p c = (r, w') \<Longrightarrow> clusterSummaries w' = clusterSummaries w"
  by (auto simp: createClusterReport_def Let_def dest: ClusterReport_calls_summaries
      split: prod.splits sum.splits if_splits)

lemma createClusterReports_loop_summaries:
  "createClusterReports_loop p refs w = (r, w') \<Longrightarrow> clusterSummaries w' = clusterSummaries w"
proof (induction refs arbitrary: w)
  case Nil
  then show ?case by simp
next
  case (Cons c refs)
  obtain a w1 where cr: "createClusterReport w p c = (a, w1)" by (cases "createClusterReport w p c")
  note s1 = createClusterReport_summaries [OF cr]
  show ?case
  proof (cases a)
    case (Inl e)
    with Cons.prems cr s1 show ?thesis by simp
  next
    case (Inr u)
    with Cons.prems cr have "createClusterReports_loop p refs w1 = (r, w')" by simp
    from Cons.IH [OF this] s1 show ?thesis by simp
  qed
qed

lemma cleanClusterReports_loop_summaries:
  "cleanClusterReports_loop items w = (r, w') \<Longrightarrow> clusterSummaries w' = clusterSummaries w"
proof (induction items arbitrary: w)
  case Nil
  then show ?case by simp
next
  case (Cons item items)
  obtain a w1 where d: "Delete_ClusterReport w item = (a, w1)" by (cases "Delete_ClusterReport w item")
  note s1 = ClusterReport_calls_summaries(3) [OF d]
  show ?case
  proof (cases "\<exists>e. a = Inl e \<and> e \<noteq> Api NotFound")
    case True
    with Cons.prems d s1 show ?thesis by auto
  next
    case False
    with Cons.prems d have "cleanClusterReports_loop items w1 = (r, w')"
      by (cases a) auto
    from Cons.IH [OF this] s1 show ?thesis by simp
  qed
qed

lemma updateClusterReports_summaries:
  "updateClusterReports w p = (r, w') \<Longrightarrow> clusterSummaries w' = clusterSummaries w"
  by (auto simp: updateClusterReports_def createClusterReports_def cleanClusterReports_def
      dest!: createClusterReports_loop_summaries cleanClusterReports_loop_summaries
        ClusterReport_calls_summaries
      split: prod.splits sum.splits if_splits)


lemma createClusterConfiguration_summaries:
  "createClusterConfiguration w c = (r, w') \<Longrightarrow> clusterSummaries w' = clusterSummaries w"
  by (auto simp: createClusterConfiguration_def Let_def dest!: ClusterConfiguration_calls_summaries
      split: prod.splits sum.splits if_splits)

lemma updateClusterConfigurationOwnerReferences_try_summaries:
  "updateClusterConfigurationOwnerReferences_try ref cc w = (r, w') \<Longrightarrow>
     clusterSummaries w' = clusterSummaries w"
  by (auto simp: updateClusterConfigurationOwnerReferences_try_def
      dest!: ClusterConfiguration_calls_summaries getClusterConfiguration_summaries
      split: prod.splits sum.splits)

lemma updateClusterConfigurationOwnerReferences_summaries:
  assumes "updateClusterConfigurationOwnerReferences w p cc = (r, w')"
  shows "clusterSummaries w' = clusterSummaries w"
proof (cases "IsOwnedByObject cc p")
  case True
  with assms show ?thesis by (simp add: updateClusterConfigurationOwnerReferences_def)
next
  case False
  with assms show ?thesis
    unfolding updateClusterConfigurationOwnerReferences_def Let_def
    by (auto elim!: RetryOnConflict_summaries [rotated]
        dest: updateClusterConfigurationOwnerReferences_try_summaries)
qed

lemma updateClusterConfigurationClusterProfileResources_inner_summaries:
  "updateClusterConfigurationClusterProfileResources_inner p cc w = (r, w') \<Longrightarrow>
     clusterSummaries w' = clusterSummaries w"
  by (auto simp: updateClusterConfigurationClusterProfileResources_inner_def
      dest!: ClusterConfiguration_calls_summaries getClusterConfiguration_summaries
      split: prod.splits sum.splits)

lemma updateClusterConfigurationClusterProfileResources_try_summaries:
  assumes "updateClusterConfigurationClusterProfileResources_try p cc w = (r, w')"
  shows "clusterSummaries w' = clusterSummaries w"
proof -
  obtain g w1 where get: "getClusterConfiguration w (Namespace cc) (Name cc) = (g, w1)"
    by (cases "getClusterConfiguration w (Namespace cc) (Name cc)")
  note s1 = getClusterConfiguration_summaries [OF get]
  show ?thesis
  proof (cases g)
    case (Inl e)
    with assms get s1 show ?thesis
      by (simp add: updateClusterConfigurationClusterProfileResources_try_def)
  next
    case (Inr cur)
    show ?thesis
    proof (cases "list_ex (\<lambda>r. ClusterProfileName r = Name p) (ClusterProfileResources cur)")
      case True
      with assms get Inr s1 show ?thesis
        by (simp add: updateClusterConfigurationClusterProfileResources_try_def)
    next
      case False
      with assms get Inr
      have "RetryOnConflict DefaultRetry
              (updateClusterConfigurationClusterProfileResources_inner p cc) w1 = (r, w')"
        by (simp add: updateClusterConfigurationClusterProfileResources_try_def)
      then have "clusterSummaries w' = clusterSummaries w1"
        by (rule RetryOnConflict_summaries [rotated])
           (rule updateClusterConfigurationClusterProfileResources_inner_summaries)
      with s1 show ?thesis by simp
    qed
  qed
qed

lemma updateClusterConfigurationClusterProfileResources_summaries:
  "updateClusterConfigurationClusterProfileResources w p cc = (r, w') \<Longrightarrow>
     clusterSummaries w' = clusterSummaries w"
  unfolding updateClusterConfigurationClusterProfileResources_def
  by (erule RetryOnConflict_summaries [rotated])
     (erule updateClusterConfigurationClusterProfileResources_try_summaries)

lemma updateClusterConfiguration_summaries:
  "updateClusterConfiguration w p c = (r, w') \<Longrightarrow> clusterSummaries w' = clusterSummaries w"
  by (auto simp: updateClusterConfiguration_def
      dest!: getClusterConfiguration_summaries updateClusterConfigurationOwnerReferences_summaries
        updateClusterConfigurationClusterProfileResources_summaries
      split: prod.splits sum.splits)

lemma updateClusterConfigurations_loop_summaries:
  "updateClusterConfigurations_loop p refs w = (r, w') \<Longrightarrow> clusterSummaries w' = clusterSummaries w"
proof (induction refs arbitrary: w)
  case Nil
  then show ?case by simp
next
  case (Cons c refs)
  obtain a w1 where cr: "createClusterConfiguration w c = (a, w1)"
    by (cases "createClusterConfiguration w c")
  note s1 = createClusterConfiguration_summaries [OF cr]
  obtain b w2 where up: "updateClusterConfiguration w1 p c = (b, w2)"
    by (cases "updateClusterConfiguration w1 p c")
  note s2 = updateClusterConfiguration_summaries [OF up]
  show ?case
  proof (cases "\<exists>u u2. a = Inr u \<and> b = Inr u2")
    case True
    with Cons.prems cr up have "updateClusterConfigurations_loop p refs w2 = (r, w')" by auto
    from Cons.IH [OF this] s1 s2 show ?thesis by simp
  next
    case False
    with Cons.prems cr up s1 s2 show ?thesis by (cases a; cases b) auto
  qed
qed

lemma updateClusterConfigurations_summaries:
  "updateClusterConfigurations w p = (r, w') \<Longrightarrow> clusterSummaries w' = clusterSummaries w"
  unfolding updateClusterConfigurations_def by (erule updateClusterConfigurations_loop_summaries)

text \<open>The whole normal path, for a profile in one-time mode.\<close>

lemma updateClusterSummaries_grown:
  "IsOneTimeSync p \<Longrightarrow> updateClusterSummaries w p = (r, w') \<Longrightarrow>
     grown (clusterSummaries w) (clusterSummaries w')"
  unfolding updateClusterSummaries_def by (erule (1) updateClusterSummaries_loop_grown)

lemma reconcileNormal_summaries:
  assumes run: "reconcileNormal Parse w r p = (res, w', r', p')"
    and mode: "SyncMode (Spec p) = SyncModeOneTime"
  shows "\<exists>mid. grown (clusterSummaries w) mid \<and> pruned SyncModeOneTime mid (clusterSummaries w')"
proof -
  have triv: "clusterSummaries w' = clusterSummaries w \<Longrightarrow> ?thesis"
    using grown_refl pruned_refl by metis
  obtain a1 w1 p1 where fin: "(if \<not> ContainsFinalizer p ClusterProfileFinalizer
            then addFinalizer w p else (Inr (), w, p)) = (a1, w1, p1)"
    by (metis prod_cases3)
  then have s1: "clusterSummaries w1 = clusterSummaries w" and sp1: "Spec p1 = Spec p"
    by (auto dest: addFinalizer_summaries split: if_splits)
  obtain a2 w2 where gm: "getMatchingClusters Parse w1 p1 = (a2, w2)"
    by (cases "getMatchingClusters Parse w1 p1")
  note s2 = getMatchingClusters_summaries [OF gm]
  show ?thesis
  proof (cases "\<exists>u refs. a1 = Inr u \<and> a2 = Inr refs")
    case False
    with run fin gm have "clusterSummaries w' = clusterSummaries w1 \<or> clusterSummaries w' = clusterSummaries w2"
      by (cases a1; cases a2) (auto simp: reconcileNormal_def)
    with s1 s2 triv show ?thesis by auto
  next
    case True
    then obtain refs where a1: "a1 = Inr ()" and a2: "a2 = Inr refs" by auto
    let ?q = "SetMatchingClusterRefs p1 refs"
    have q: "IsOneTimeSync ?q" "SyncMode (Spec ?q) = SyncModeOneTime"
      using mode sp1 by (simp_all add: IsOneTimeSync_def SetMatchingClusterRefs_def)
    obtain a3 w3 where c3: "updateClusterConfigurations w2 ?q = (a3, w3)"
      by (cases "updateClusterConfigurations w2 ?q")
    note s3 = updateClusterConfigurations_summaries [OF c3]
    obtain a4 w4 where c4: "updateClusterReports w3 ?q = (a4, w4)"
      by (cases "updateClusterReports w3 ?q")
    note s4 = updateClusterReports_summaries [OF c4]
    obtain a5 w5 where c5: "updateClusterSummaries w4 ?q = (a5, w5)"
      by (cases "updateClusterSummaries w4 ?q")
    from updateClusterSummaries_grown [OF q(1) c5] s1 s2 s3 s4
    have g5: "grown (clusterSummaries w) (clusterSummaries w5)" by simp
    obtain a6 w6 where c6: "cleanClusterSummaries w5 ?q = (a6, w6)"
      by (cases "cleanClusterSummaries w5 ?q")
    from cleanClusterSummaries_pruned [OF c6] q(2)
    have p6: "pruned SyncModeOneTime (clusterSummaries w5) (clusterSummaries w6)" by simp
    obtain a7 w7 where c7: "cleanClusterConfigurations w6 ?q = (a7, w7)"
      by (cases "cleanClusterConfigurations w6 ?q")
    note s7 = cleanClusterConfigurations_summaries [OF c7]
    from run fin gm a1 a2 c3 c4 c5 c6 c7
    have "w' = w3 \<or> w' = w4 \<or> w' = w5 \<or> w' = w6 \<or> w' = w7"
      by (cases a3; cases a4; cases a5; cases a6; cases a7)
         (auto simp: reconcileNormal_def Let_def)
    then consider "clusterSummaries w' = clusterSummaries w" | "w' = w5"
      | "clusterSummaries w' = clusterSummaries w6"
      using s1 s2 s3 s4 s7 by auto
    then show ?thesis
    proof cases
      case 1
      then show ?thesis by (rule triv)
    next
      case 2
      with g5 pruned_refl show ?thesis by blast
    next
      case 3
      with g5 p6 show ?thesis by auto
    qed
  qed
qed


lemma cleanClusterReports_summaries:
  "cleanClusterReports w p = (r, w') \<Longrightarrow> clusterSummaries w' = clusterSummaries w"
  by (auto simp: cleanClusterReports_def
      dest!: cleanClusterReports_loop_summaries ClusterReport_calls_summaries
      split: prod.splits sum.splits)

lemma reconcileDelete_summaries:
  assumes run: "reconcileDelete w p = (res, w', p')"
  shows "pruned (SyncMode (Spec p)) (clusterSummaries w) (clusterSummaries w')"
proof -
  let ?q = "SetMatchingClusterRefs p []"
  have q: "SyncMode (Spec ?q) = SyncMode (Spec p)" by (simp add: SetMatchingClusterRefs_def)
  obtain a1 w1 where c1: "cleanClusterSummaries w ?q = (a1, w1)"
    by (cases "cleanClusterSummaries w ?q")
  from cleanClusterSummaries_pruned [OF c1] q
  have p1: "pruned (SyncMode (Spec p)) (clusterSummaries w) (clusterSummaries w1)" by simp
  obtain g w2 where c2: "allClusterSummariesGone w1 ?q = (g, w2)"
    by (cases "allClusterSummariesGone w1 ?q")
  from allClusterSummariesGone_frame [OF c2] have s2: "clusterSummaries w2 = clusterSummaries w1"
    by simp
  obtain a3 w3 where c3: "cleanClusterConfigurations w2 ?q = (a3, w3)"
    by (cases "cleanClusterConfigurations w2 ?q")
  note s3 = cleanClusterConfigurations_summaries [OF c3]
  obtain a4 w4 where c4: "cleanClusterReports w3 ?q = (a4, w4)"
    by (cases "cleanClusterReports w3 ?q")
  note s4 = cleanClusterReports_summaries [OF c4]
  obtain h w5 where c5: "canRemoveFinalizer w4 ?q = (h, w5)"
    by (cases "canRemoveFinalizer w4 ?q")
  then have s5: "clusterSummaries w5 = clusterSummaries w4"
    using allClusterSummariesGone_frame [of w4 ?q h w5] by (simp add: canRemoveFinalizer_def)
  from run c1 c2 c3 c4 c5 have "w' = w1 \<or> w' = w2 \<or> w' = w3 \<or> w' = w4 \<or> w' = w5"
    by (cases a1; cases a3; cases a4) (auto simp: reconcileDelete_def Let_def split: if_splits)
  with s2 s3 s4 s5 have "clusterSummaries w' = clusterSummaries w1" by auto
  with p1 show ?thesis by simp
qed

lemma alignedWith_same:
  "SyncMode (ClusterProfileSpec spec) = m \<Longrightarrow> alignedWith m spec = spec"
  by (simp add: alignedWith_def)

lemma descends_frozen:
  assumes "descends m s' s" and "SyncMode (ClusterProfileSpec (SummarySpec s)) = m"
  shows "SummarySpec s' = SummarySpec s"
  using assms by (auto simp: descends_def alignedWith_same)

lemma distinct_key_eq:
  assumes "distinct (map objKey xs)" and "a \<in> set xs" and "b \<in> set xs" and "objKey a = objKey b"
  shows "a = b"
  using assms by (meson distinct_map inj_onD)

text \<open>
  Claim C8. For a profile in one-time mode, \<^verbatim>\<open>updateClusterSummary\<close> returns at once: no
  client call, no update. Over a whole reconcile of such a profile, on the normal path or on
  the delete path and whatever its outcome, a stored summary whose embedded sync mode is
  one-time, as \<^verbatim>\<open>createClusterSummary\<close> wrote it under that mode, keeps its specification if
  it is still stored afterwards. Summaries are identified by namespace and name.
\<close>

theorem reconcile_OneTime_freeze:
  assumes mode: "IsOneTimeSync p"
  shows "updateClusterSummary w0 p cluster = (Inr (), w0) \<and>
         ((reconcileNormal Parse w r p = (res, w', r', p') \<or> reconcileDelete w p = (res, w', p')) \<and>
          distinct (map objKey (clusterSummaries w)) \<and>
          s \<in> set (clusterSummaries w) \<and>
          SyncMode (ClusterProfileSpec (SummarySpec s)) = SyncModeOneTime \<and>
          s' \<in> set (clusterSummaries w') \<and> objKey s' = objKey s
          \<longrightarrow> SummarySpec s' = SummarySpec s)"
proof (intro conjI impI)
  show "updateClusterSummary w0 p cluster = (Inr (), w0)"
    using mode by (rule updateClusterSummary_OneTime)
next
  assume a: "(reconcileNormal Parse w r p = (res, w', r', p') \<or> reconcileDelete w p = (res, w', p')) \<and>
          distinct (map objKey (clusterSummaries w)) \<and>
          s \<in> set (clusterSummaries w) \<and>
          SyncMode (ClusterProfileSpec (SummarySpec s)) = SyncModeOneTime \<and>
          s' \<in> set (clusterSummaries w') \<and> objKey s' = objKey s"
  from mode have m: "SyncMode (Spec p) = SyncModeOneTime" by (simp add: IsOneTimeSync_def)
  have "\<exists>mid. grown (clusterSummaries w) mid \<and> pruned SyncModeOneTime mid (clusterSummaries w')"
  proof -
    from a consider "reconcileNormal Parse w r p = (res, w', r', p')"
      | "reconcileDelete w p = (res, w', p')" by blast
    then show ?thesis
    proof cases
      case 1
      then show ?thesis using m by (rule reconcileNormal_summaries)
    next
      case 2
      from reconcileDelete_summaries [OF 2] m grown_refl show ?thesis by metis
    qed
  qed
  then obtain added where pr: "pruned SyncModeOneTime (clusterSummaries w @ added) (clusterSummaries w')"
    and fresh: "\<forall>n \<in> set added. objKey n \<notin> objKey ` set (clusterSummaries w)"
    unfolding grown_def by blast
  from pr a obtain s1 where s1: "s1 \<in> set (clusterSummaries w @ added)"
    and d: "descends SyncModeOneTime s' s1"
    unfolding pruned_def by blast
  from d a have k: "objKey s1 = objKey s" by (simp add: descends_def)
  with fresh a have "s1 \<notin> set added" by force
  with s1 have "s1 \<in> set (clusterSummaries w)" by simp
  with a k have "s1 = s" by (blast intro: distinct_key_eq)
  with d a show "SummarySpec s' = SummarySpec s" by (blast intro: descends_frozen)
qed

theorem reconcile_OneTime_freeze_witness:
  "IsOneTimeSync ex_profile_edited \<and>
   updateClusterSummary ex_world_onetime ex_profile_edited (ex_ref ''a'' ''c1'') =
     (Inr (), ex_world_onetime) \<and>
   fst (reconcileNormal ex_Parse ex_world_onetime ex_reconciler ex_profile_edited) =
     Inr \<lparr>Requeue = False, RequeueAfter = NoDelay\<rparr> \<and>
   Spec ex_profile_edited \<noteq>
     ClusterProfileSpec (SummarySpec (ex_summary ''p1'' ''a'' ''c1'' SyncModeOneTime [])) \<and>
   length (clusterSummaries
     (fst (snd (reconcileNormal ex_Parse ex_world_onetime ex_reconciler ex_profile_edited)))) = 1 \<and>
   SummarySpec (hd (clusterSummaries
     (fst (snd (reconcileNormal ex_Parse ex_world_onetime ex_reconciler ex_profile_edited))))) =
     SummarySpec (ex_summary ''p1'' ''a'' ''c1'' SyncModeOneTime [])"
proof -
  let ?X = "reconcileNormal ex_Parse ex_world_onetime ex_reconciler ex_profile_edited"
  let ?s = "ex_summary ''p1'' ''a'' ''c1'' SyncModeOneTime []"
  let ?t = "hd (clusterSummaries (fst (snd ?X)))"
  have mode: "IsOneTimeSync ex_profile_edited" by code_simp
  have res: "fst ?X = Inr \<lparr>Requeue = False, RequeueAfter = NoDelay\<rparr>" by code_simp
  have edited: "Spec ex_profile_edited \<noteq> ClusterProfileSpec (SummarySpec ?s)" by code_simp
  have len: "length (clusterSummaries (fst (snd ?X))) = 1" by code_simp
  have run: "?X = (fst ?X, fst (snd ?X), fst (snd (snd ?X)), snd (snd (snd ?X)))" by simp
  have keys: "distinct (map objKey (clusterSummaries ex_world_onetime))" by code_simp
  have s: "?s \<in> set (clusterSummaries ex_world_onetime)" by code_simp
  have emb: "SyncMode (ClusterProfileSpec (SummarySpec ?s)) = SyncModeOneTime" by code_simp
  have t: "?t \<in> set (clusterSummaries (fst (snd ?X)))" by code_simp
  have k: "objKey ?t = objKey ?s" by code_simp
  from reconcile_OneTime_freeze [OF mode, where Parse = ex_Parse and w = ex_world_onetime
      and r = ex_reconciler and res = "fst ?X" and w' = "fst (snd ?X)" and r' = "fst (snd (snd ?X))"
      and p' = "snd (snd (snd ?X))" and s = ?s and s' = ?t
      and ?w0.0 = ex_world_onetime and cluster = "ex_ref ''a'' ''c1''"]
    run keys s emb t k
  have "updateClusterSummary ex_world_onetime ex_profile_edited (ex_ref ''a'' ''c1'') =
          (Inr (), ex_world_onetime)"
    and "SummarySpec ?t = SummarySpec ?s"
    by blast+
  with mode res edited len show ?thesis by simp
qed


section \<open>Pruning the summaries\<close>

lemma objKey_stamped [simp]: "objKey (stamped s) = objKey s"
  by (simp add: stamped_def objKey_def)

lemma objKey_aligned [simp]: "objKey (aligned p s) = objKey s"
  by (simp add: aligned_def objKey_def serialised_def)

lemma objKey_keyedEffect [simp]: "objKey (keyedEffect p s) = objKey s"
  by (simp add: keyedEffect_def)

lemma summaryMatched_key: "summaryMatched p s \<Longrightarrow> summaryKey s \<in> set (matchKeys p)"
  by (force simp: summaryMatched_def summaryKey_def matchKeys_def list_ex_iff)

lemma matching_dom:
  "cleanClusterSummaries_matching refs m k = None \<longleftrightarrow>
     m k = None \<and> k \<notin> (\<lambda>ref. getClusterInfo (refNamespace ref) (refName ref)) ` set refs"
  by (induction refs arbitrary: m) auto

lemma matching_None:
  "cleanClusterSummaries_matching (MatchingClusterRefs p) Map.empty k = None \<longleftrightarrow>
     k \<notin> set (matchKeys p)"
  by (simp add: matching_dom matchKeys_def)

text \<open>Client calls when no failure is scripted, on a store with unique names.\<close>

lemma next_fault_none: "faults w = [] \<Longrightarrow> next_fault w = (None, w)"
  by (simp add: next_fault_def)

lemma find_distinct_key:
  assumes "distinct (map objKey xs)" and "x \<in> set xs"
  shows "find (\<lambda>y. objKey y = objKey x) xs = Some x"
  using assms
proof (induction xs)
  case Nil
  then show ?case by simp
next
  case (Cons a xs)
  then show ?case by (auto simp: image_iff)
qed

lemma map_key_cong:
  assumes "distinct (map objKey xs)" and "x \<in> set xs" and "g x = h x"
  shows "map (\<lambda>y. if objKey y = objKey x then g y else y) xs =
         map (\<lambda>y. if objKey y = objKey x then h y else y) xs"
proof (rule map_cong [OF refl])
  fix y assume "y \<in> set xs"
  with assms show "(if objKey y = objKey x then g y else y) = (if objKey y = objKey x then h y else y)"
    by (auto dest: distinct_key_eq)
qed

lemma distinct_map_key:
  assumes "distinct (map objKey xs)" and "\<And>y. objKey (f y) = objKey y"
  shows "distinct (map objKey (map f xs))"
proof -
  have "map objKey (map f xs) = map objKey xs" using assms(2) by (induction xs) auto
  then show ?thesis using assms(1) by (simp only:)
qed

lemma deleteClusterSummary_held:
  assumes "faults w = []" and "distinct (map objKey (clusterSummaries w))"
    and "x \<in> set (clusterSummaries w)" and "Finalizers x \<noteq> []"
  shows "deleteClusterSummary w x =
           (Inr (), w\<lparr>clusterSummaries :=
              map (\<lambda>y. if objKey y = objKey x then stamped y else y) (clusterSummaries w)\<rparr>)"
proof -
  have "store_delete (clusterSummaries w) (objKey x) =
          Inr (map (\<lambda>y. if objKey y = objKey x then stamped y else y) (clusterSummaries w))"
    using find_distinct_key [OF assms(2,3)] assms(4)
    by (auto simp: store_delete_def stamped_def)
  with assms(1) show ?thesis
    by (simp add: deleteClusterSummary_def Delete_ClusterSummary_def api_write_def next_fault_none)
qed

lemma updateClusterSummarySyncMode_stored:
  assumes "faults w = []" and "distinct (map objKey (clusterSummaries w))"
    and "x0 \<in> set (clusterSummaries w)" and "objKey x0 = objKey x"
  shows "updateClusterSummarySyncMode w p x =
           (Inr (), w\<lparr>clusterSummaries :=
              map (\<lambda>y. if objKey y = objKey x then aligned p y else y) (clusterSummaries w)\<rparr>)"
proof -
  have f: "find (\<lambda>y. objKey y = objKey x) (clusterSummaries w) = Some x0"
    using find_distinct_key [OF assms(2,3)] assms(4) by simp
  then have get: "Get_ClusterSummary w (Namespace x, Name x) = (Inr x0, w)"
    using assms(1)
    by (simp add: Get_ClusterSummary_def api_read_def next_fault_none store_get_def objKey_def)
  let ?new = "x0\<lparr>SummarySpec := (SummarySpec x0)
               \<lparr>ClusterProfileSpec := (ClusterProfileSpec (SummarySpec x0))
                  \<lparr>SyncMode := SyncMode (Spec p)\<rparr>\<rparr>\<rparr>"
  have al: "serialised ?new = aligned p x0"
    by (simp add: aligned_def alignedWith_def)
  have k: "objKey ?new = objKey x0"
    by (simp add: objKey_def)
  have "store_update (clusterSummaries w) ?new =
          Inr (map (\<lambda>y. if objKey y = objKey x0 then aligned p x0 else y) (clusterSummaries w))"
    using f assms(4) al k by (simp add: store_update_def)
  also have "map (\<lambda>y. if objKey y = objKey x0 then aligned p x0 else y) (clusterSummaries w) =
             map (\<lambda>y. if objKey y = objKey x0 then aligned p y else y) (clusterSummaries w)"
    using map_key_cong [OF assms(2,3), of "\<lambda>y. aligned p x0" "aligned p"] by simp
  finally have "store_update (clusterSummaries w) ?new =
          Inr (map (\<lambda>y. if objKey y = objKey x then aligned p y else y) (clusterSummaries w))"
    using assms(4) by simp
  with get assms(1) show ?thesis
    by (simp add: updateClusterSummarySyncMode_def Update_ClusterSummary_def api_write_def
        next_fault_none)
qed


lemma cleanClusterSummaries_loop_step:
  assumes nf: "faults w = []" and d: "distinct (map objKey (clusterSummaries w))"
    and x: "x \<in> set (clusterSummaries w)"
    and held: "IsOwnedByObject x p \<and> summaryKey x \<notin> set (matchKeys p) \<longrightarrow> Finalizers x \<noteq> []"
  shows "cleanClusterSummaries_loop p
           (cleanClusterSummaries_matching (MatchingClusterRefs p) Map.empty) (x # xs) w =
         cleanClusterSummaries_loop p
           (cleanClusterSummaries_matching (MatchingClusterRefs p) Map.empty) xs
           (w\<lparr>clusterSummaries :=
              map (\<lambda>y. if objKey y = objKey x then keyedEffect p y else y) (clusterSummaries w)\<rparr>)"
proof (cases "IsOwnedByObject x p")
  case False
  have "map (\<lambda>y. if objKey y = objKey x then keyedEffect p y else y) (clusterSummaries w) =
        map (\<lambda>y. if objKey y = objKey x then y else y) (clusterSummaries w)"
    using False by (intro map_key_cong [OF d x]) (simp add: keyedEffect_def)
  then have "w\<lparr>clusterSummaries :=
              map (\<lambda>y. if objKey y = objKey x then keyedEffect p y else y) (clusterSummaries w)\<rparr> = w"
    by simp
  with False show ?thesis by simp
next
  case True
  let ?m = "cleanClusterSummaries_matching (MatchingClusterRefs p) Map.empty"
  show ?thesis
  proof (cases "summaryKey x \<in> set (matchKeys p)")
    case yes: True
    then obtain b where
      m: "?m (getClusterInfo (ClusterNamespace (SummarySpec x)) (ClusterName (SummarySpec x))) = Some b"
      using matching_None [of p "summaryKey x"] by (auto simp: summaryKey_def)
    have eff: "map (\<lambda>y. if objKey y = objKey x then aligned p y else y) (clusterSummaries w) =
               map (\<lambda>y. if objKey y = objKey x then keyedEffect p y else y) (clusterSummaries w)"
      using True yes by (intro map_key_cong [OF d x]) (simp add: keyedEffect_def)
    from updateClusterSummarySyncMode_stored [OF nf d x refl, of p] eff
    have "updateClusterSummarySyncMode w p x =
            (Inr (), w\<lparr>clusterSummaries :=
               map (\<lambda>y. if objKey y = objKey x then keyedEffect p y else y) (clusterSummaries w)\<rparr>)"
      by simp
    with True m show ?thesis by simp
  next
    case no: False
    then have m: "?m (getClusterInfo (ClusterNamespace (SummarySpec x)) (ClusterName (SummarySpec x))) = None"
      using matching_None [of p "summaryKey x"] by (simp add: summaryKey_def)
    from held True no have fin: "Finalizers x \<noteq> []" by simp
    let ?w1 = "w\<lparr>clusterSummaries :=
              map (\<lambda>y. if objKey y = objKey x then stamped y else y) (clusterSummaries w)\<rparr>"
    note del = deleteClusterSummary_held [OF nf d x fin]
    have nf1: "faults ?w1 = []" using nf by simp
    have d1: "distinct (map objKey (clusterSummaries ?w1))"
      using distinct_map_key [OF d, of "\<lambda>y. if objKey y = objKey x then stamped y else y"] by simp
    have x1: "stamped x \<in> set (clusterSummaries ?w1)" using x by force
    have k1: "objKey (stamped x) = objKey x" by simp
    have comp: "map (\<lambda>y. if objKey y = objKey x then aligned p y else y) (clusterSummaries ?w1) =
                map (\<lambda>y. if objKey y = objKey x then aligned p (stamped y) else y) (clusterSummaries w)"
      by simp
    have eff: "map (\<lambda>y. if objKey y = objKey x then aligned p (stamped y) else y) (clusterSummaries w) =
               map (\<lambda>y. if objKey y = objKey x then keyedEffect p y else y) (clusterSummaries w)"
      using True no by (intro map_key_cong [OF d x]) (simp add: keyedEffect_def)
    from updateClusterSummarySyncMode_stored [OF nf1 d1 x1 k1, of p] comp eff
    have "updateClusterSummarySyncMode ?w1 p x =
            (Inr (), w\<lparr>clusterSummaries :=
               map (\<lambda>y. if objKey y = objKey x then keyedEffect p y else y) (clusterSummaries w)\<rparr>)"
      by simp
    with True m del show ?thesis by simp
  qed
qed

lemma cleanClusterSummaries_loop_effect:
  assumes "faults w = []" and "distinct (map objKey (clusterSummaries w))"
    and "set xs \<subseteq> set (clusterSummaries w)" and "distinct (map objKey xs)"
    and "\<forall>x \<in> set xs. IsOwnedByObject x p \<and> summaryKey x \<notin> set (matchKeys p) \<longrightarrow> Finalizers x \<noteq> []"
  shows "cleanClusterSummaries_loop p
           (cleanClusterSummaries_matching (MatchingClusterRefs p) Map.empty) xs w =
         (Inr (), w\<lparr>clusterSummaries :=
            map (\<lambda>y. if objKey y \<in> objKey ` set xs then keyedEffect p y else y) (clusterSummaries w)\<rparr>)"
  using assms
proof (induction xs arbitrary: w)
  case Nil
  then show ?case by simp
next
  case (Cons x xs)
  let ?F = "\<lambda>y. if objKey y = objKey x then keyedEffect p y else y"
  let ?w2 = "w\<lparr>clusterSummaries := map ?F (clusterSummaries w)\<rparr>"
  from Cons.prems have x: "x \<in> set (clusterSummaries w)" by simp
  from Cons.prems
  have held: "IsOwnedByObject x p \<and> summaryKey x \<notin> set (matchKeys p) \<longrightarrow> Finalizers x \<noteq> []"
    by simp
  note step = cleanClusterSummaries_loop_step [OF Cons.prems(1,2) x held, of xs]
  have nf2: "faults ?w2 = []" using Cons.prems(1) by simp
  have d2: "distinct (map objKey (clusterSummaries ?w2))"
    using distinct_map_key [OF Cons.prems(2), of ?F] by simp
  have fresh: "objKey x \<notin> objKey ` set xs" using Cons.prems(4) by simp
  have sub2: "set xs \<subseteq> set (clusterSummaries ?w2)"
  proof
    fix y assume y: "y \<in> set xs"
    with fresh have "objKey y \<noteq> objKey x" by (metis imageI)
    then have "?F y = y" by simp
    moreover from y Cons.prems(3) have "y \<in> set (clusterSummaries w)" by auto
    ultimately show "y \<in> set (clusterSummaries ?w2)" by force
  qed
  have dx: "distinct (map objKey xs)" using Cons.prems(4) by simp
  have fin2: "\<forall>x \<in> set xs. IsOwnedByObject x p \<and> summaryKey x \<notin> set (matchKeys p) \<longrightarrow> Finalizers x \<noteq> []"
    using Cons.prems(5) by simp
  note ih = Cons.IH [OF nf2 d2 sub2 dx fin2]
  have comp: "map (\<lambda>y. if objKey y \<in> objKey ` set xs then keyedEffect p y else y) (map ?F (clusterSummaries w)) =
              map (\<lambda>y. if objKey y \<in> objKey ` set (x # xs) then keyedEffect p y else y) (clusterSummaries w)"
    using fresh by auto
  from step ih comp show ?case by simp
qed

text \<open>
  Claim C5, as the code has it. Take a run of \<^verbatim>\<open>cleanClusterSummaries\<close> in which no client
  call fails, every summary to be pruned is held by a finalizer, so that it is still stored
  once its deletion is requested, and the keys are faithful: a stored summary whose key is
  that of a matching cluster has its own cluster, by namespace and name, among the matching
  clusters. Then the step succeeds and leaves every stored summary as \<^const>\<open>pruneEffect\<close>
  says: a summary labelled with and owned by the profile whose cluster, by namespace and
  name, is not in the match set is terminating; every summary labelled with and owned by the
  profile, pruned or retained, carries the sync mode of the profile; any other summary is
  untouched.
\<close>

theorem cleanClusterSummaries_effect:
  assumes nf: "faults w = []"
    and d: "distinct (map objKey (clusterSummaries w))"
    and held: "\<forall>s \<in> set (clusterSummaries w).
                 MatchingLabels [(ClusterProfileLabelName, Name p)] s \<and> IsOwnedByObject s p \<and>
                 \<not> summaryMatched p s \<longrightarrow> Finalizers s \<noteq> []"
    and faithful: "\<forall>s \<in> set (clusterSummaries w).
                 summaryKey s \<in> set (matchKeys p) \<longrightarrow> summaryMatched p s"
  shows "cleanClusterSummaries w p =
           (Inr (), w\<lparr>clusterSummaries := map (pruneEffect p) (clusterSummaries w)\<rparr>)"
proof -
  let ?L = "MatchingLabels [(ClusterProfileLabelName, Name p)]"
  let ?items = "filter ?L (clusterSummaries w)"
  have keys: "summaryKey y \<in> set (matchKeys p) \<longleftrightarrow> summaryMatched p y"
    if "y \<in> set (clusterSummaries w)" for y
    using that faithful summaryMatched_key by blast
  have list: "List_ClusterSummary w [(ClusterProfileLabelName, Name p)] = (Inr ?items, w)"
    using nf by (simp add: List_ClusterSummary_def api_read_def next_fault_none)
  have sub: "set ?items \<subseteq> set (clusterSummaries w)" by auto
  have dx: "distinct (map objKey ?items)" using d by (rule distinct_map_filter)
  have fin: "\<forall>x \<in> set ?items. IsOwnedByObject x p \<and> summaryKey x \<notin> set (matchKeys p) \<longrightarrow> Finalizers x \<noteq> []"
    using held keys by auto
  have eff: "map (\<lambda>y. if objKey y \<in> objKey ` set ?items then keyedEffect p y else y) (clusterSummaries w) =
             map (pruneEffect p) (clusterSummaries w)"
  proof (rule map_cong [OF refl])
    fix y assume y: "y \<in> set (clusterSummaries w)"
    have "objKey y \<in> objKey ` set ?items \<longleftrightarrow> ?L y"
    proof
      assume "objKey y \<in> objKey ` set ?items"
      then obtain t where t: "t \<in> set (clusterSummaries w)" "?L t" "objKey t = objKey y" by auto
      with d y have "t = y" by (blast intro: distinct_key_eq)
      with t show "?L y" by simp
    next
      assume "?L y"
      with y show "objKey y \<in> objKey ` set ?items" by auto
    qed
    then show "(if objKey y \<in> objKey ` set ?items then keyedEffect p y else y) = pruneEffect p y"
      using keys [OF y] by (simp add: pruneEffect_def keyedEffect_def)
  qed
  from cleanClusterSummaries_loop_effect [OF nf d sub dx fin] list eff
  show ?thesis by (simp add: cleanClusterSummaries_def)
qed

theorem cleanClusterSummaries_effect_witness:
  "faults (ex_world\<lparr>clusterSummaries :=
      [ex_summary ''p1'' ''a'' ''c2'' SyncModeDryRun [''deployer''],
       ex_summary ''p1'' ''a'' ''c1'' SyncModeDryRun [],
       ex_summary ''p2'' ''a'' ''c2'' SyncModeDryRun []]\<rparr>) = [] \<and>
   cleanClusterSummaries
     (ex_world\<lparr>clusterSummaries :=
        [ex_summary ''p1'' ''a'' ''c2'' SyncModeDryRun [''deployer''],
         ex_summary ''p1'' ''a'' ''c1'' SyncModeDryRun [],
         ex_summary ''p2'' ''a'' ''c2'' SyncModeDryRun []]\<rparr>)
     (ex_profile ''p1'' ''env=prod'' SyncModeContinuous [ex_ref ''a'' ''c1'']) =
   (Inr (),
    ex_world\<lparr>clusterSummaries :=
      [(ex_summary ''p1'' ''a'' ''c2'' SyncModeContinuous [''deployer''])\<lparr>DeletionTimestamp := Some 1\<rparr>,
       ex_summary ''p1'' ''a'' ''c1'' SyncModeContinuous [],
       ex_summary ''p2'' ''a'' ''c2'' SyncModeDryRun []]\<rparr>)"
proof -
  let ?w = "ex_world\<lparr>clusterSummaries :=
      [ex_summary ''p1'' ''a'' ''c2'' SyncModeDryRun [''deployer''],
       ex_summary ''p1'' ''a'' ''c1'' SyncModeDryRun [],
       ex_summary ''p2'' ''a'' ''c2'' SyncModeDryRun []]\<rparr>"
  let ?p = "ex_profile ''p1'' ''env=prod'' SyncModeContinuous [ex_ref ''a'' ''c1'']"
  have nf: "faults ?w = []" by code_simp
  have d: "distinct (map objKey (clusterSummaries ?w))" by code_simp
  have held: "\<forall>s \<in> set (clusterSummaries ?w).
                 MatchingLabels [(ClusterProfileLabelName, Name ?p)] s \<and> IsOwnedByObject s ?p \<and>
                 \<not> summaryMatched ?p s \<longrightarrow> Finalizers s \<noteq> []"
    by code_simp
  have faithful: "\<forall>s \<in> set (clusterSummaries ?w).
                 summaryKey s \<in> set (matchKeys ?p) \<longrightarrow> summaryMatched ?p s"
    by code_simp
  have eff: "?w\<lparr>clusterSummaries := map (pruneEffect ?p) (clusterSummaries ?w)\<rparr> =
    ex_world\<lparr>clusterSummaries :=
      [(ex_summary ''p1'' ''a'' ''c2'' SyncModeContinuous [''deployer''])\<lparr>DeletionTimestamp := Some 1\<rparr>,
       ex_summary ''p1'' ''a'' ''c1'' SyncModeContinuous [],
       ex_summary ''p2'' ''a'' ''c2'' SyncModeDryRun []]\<rparr>"
    by code_simp
  from cleanClusterSummaries_effect [OF nf d held faithful] eff nf show ?thesis by simp
qed

text \<open>
  Claim C5, as it is stated, says that the alignment is applied to the retained summaries
  only. Profile \<^verbatim>\<open>p1\<close>, now in continuous mode, matches \<^verbatim>\<open>a/c1\<close> alone; its summary for
  \<^verbatim>\<open>a/c2\<close>, written in dry-run mode and held by a finalizer, is pruned and aligned as well: it
  ends terminating with the continuous mode embedded.
\<close>

theorem cleanClusterSummaries_aligns_pruned_summary:
  "\<not> summaryMatched (ex_profile ''p1'' ''env=prod'' SyncModeContinuous [ex_ref ''a'' ''c1''])
       (ex_summary ''p1'' ''a'' ''c2'' SyncModeDryRun [''deployer'']) \<and>
   cleanClusterSummaries
     (ex_world\<lparr>clusterSummaries :=
        [ex_summary ''p1'' ''a'' ''c2'' SyncModeDryRun [''deployer''],
         ex_summary ''p1'' ''a'' ''c1'' SyncModeDryRun []]\<rparr>)
     (ex_profile ''p1'' ''env=prod'' SyncModeContinuous [ex_ref ''a'' ''c1'']) =
   (Inr (),
    ex_world\<lparr>clusterSummaries :=
      [(ex_summary ''p1'' ''a'' ''c2'' SyncModeContinuous [''deployer''])\<lparr>DeletionTimestamp := Some 1\<rparr>,
       ex_summary ''p1'' ''a'' ''c1'' SyncModeContinuous []]\<rparr>)"
  by code_simp

text \<open>
  Without the finalizer the pruned summary is gone when the alignment reads it: the step
  fails with \<^verbatim>\<open>NotFound\<close> and the retained summary is not aligned in this run.
\<close>

lemma cleanClusterSummaries_pruned_summary_gone:
  "cleanClusterSummaries
     (ex_world\<lparr>clusterSummaries :=
        [ex_summary ''p1'' ''a'' ''c2'' SyncModeDryRun [],
         ex_summary ''p1'' ''a'' ''c1'' SyncModeDryRun []]\<rparr>)
     (ex_profile ''p1'' ''env=prod'' SyncModeContinuous [ex_ref ''a'' ''c1'']) =
   (Inl (Api NotFound),
    ex_world\<lparr>clusterSummaries := [ex_summary ''p1'' ''a'' ''c1'' SyncModeDryRun []]\<rparr>)"
  by code_simp

text \<open>
  Without faithful keys the loop keeps a summary that is not matched. Profile \<^verbatim>\<open>p1\<close>
  matches the cluster \<^verbatim>\<open>a-b/c\<close> alone; its summary for the cluster \<^verbatim>\<open>a/b-c\<close>, whose key
  \<^verbatim>\<open>a-b-c\<close> is also that of the matching cluster, is retained and aligned, not pruned.
\<close>

lemma cleanClusterSummaries_key_collision:
  "\<not> summaryMatched (ex_profile ''p1'' ''env=prod'' SyncModeContinuous [ex_ref ''a-b'' ''c''])
       (ex_summary ''p1'' ''a'' ''b-c'' SyncModeDryRun [''deployer'']) \<and>
   cleanClusterSummaries
     (ex_world\<lparr>clusterSummaries := [ex_summary ''p1'' ''a'' ''b-c'' SyncModeDryRun [''deployer'']]\<rparr>)
     (ex_profile ''p1'' ''env=prod'' SyncModeContinuous [ex_ref ''a-b'' ''c'']) =
   (Inr (),
    ex_world\<lparr>clusterSummaries :=
      [ex_summary ''p1'' ''a'' ''b-c'' SyncModeContinuous [''deployer'']]\<rparr>)"
  by code_simp


end
